theory Spec2Isabelle
  imports Main
begin

section \<open>Python strings\<close>

text \<open>
  A Python \<open>str\<close> is modelled as a \<open>string\<close>; a \<open>char\<close> stands for a code point below
  256. \<open>isspace\<close> is \<open>str.isspace\<close> on those code points: the ASCII controls 9 to 13 and
  28 to 31, the blank, and the Latin-1 code points 0x85 and 0xA0.
\<close>

definition isspace :: "char \<Rightarrow> bool" where
  "isspace c = (c \<in> {CHR 0x09, CHR 0x0A, CHR 0x0B, CHR 0x0C, CHR 0x0D,
                      CHR 0x1C, CHR 0x1D, CHR 0x1E, CHR 0x1F, CHR 0x20, CHR 0x85, CHR 0xA0})"

text \<open>\<open>s.strip()\<close>: whitespace removed at both ends.\<close>

definition str_strip :: "string \<Rightarrow> string" where
  "str_strip s = rev (dropWhile isspace (rev (dropWhile isspace s)))"

text \<open>\<open>s.split(sep)\<close> for a one-character separator: never an empty list; the empty
  string gives one empty element.\<close>

fun str_split :: "char \<Rightarrow> string \<Rightarrow> string list" where
  "str_split sep [] = [[]]"
| "str_split sep (c # cs) =
     (if c = sep then [] # str_split sep cs
      else (case str_split sep cs of
              [] \<Rightarrow> [[c]]
            | x # xs \<Rightarrow> (c # x) # xs))"

text \<open>\<open>sep.join(xs)\<close>.\<close>

fun str_join :: "string \<Rightarrow> string list \<Rightarrow> string" where
  "str_join sep [] = []"
| "str_join sep [x] = x"
| "str_join sep (x # y # ys) = x @ sep @ str_join sep (y # ys)"

text \<open>
  Exceptions. \<open>External\<close> is an exception raised by a collaborator (the database driver),
  named by its class.
\<close>

datatype py_error =
    ValueError
  | KeyError string
  | IndexError
  | SystemExit
  | External string

text \<open>
  What a call does: it returns a value, or it raises an exception, or it does something
  the model does not follow. \<open>Unmodelled\<close> is neither a return nor a raise: it marks a
  format string outside the fragment of \<open>str.format\<close> modelled below, for which the model
  gives no result (the code may format the field, or raise).
\<close>

datatype 'a result =
    Returns 'a
  | Raises py_error
  | Unmodelled

text \<open>
  \<open>template.format(**kwargs)\<close> with keyword arguments only, all of them strings.
  Literal text is copied; \<open>{{\<close> and \<open>}}\<close> give one brace; a single \<open>}\<close>, a \<open>{\<close> at
  the end, a \<open>{\<close> inside a field and a field that is not closed raise \<open>ValueError\<close>.
  A field \<open>{name}\<close> is replaced by the keyword argument \<open>name\<close> (\<open>KeyError\<close> when there
  is none); an empty or all-digit name asks for a positional argument, of which there
  are none (\<open>IndexError\<close>; \<open>ValueError\<close> when the digits are too many). A name with a
  dot asks for an attribute of the argument named before the first dot: the lookup of
  that argument fails as above; what the attribute of a string gives is outside the
  model. A field with a conversion (\<open>!\<close>), a format specification (\<open>:\<close>) or an index
  (\<open>[\<close>) is outside the model. Errors arise left to right, as the formatter renders
  each field when it meets it.
\<close>

definition isdecimal :: "char \<Rightarrow> bool" where
  "isdecimal c = (c \<in> set ''0123456789'')"

text \<open>The formatter's \<open>get_integer\<close>: \<open>Inr None\<close> when the name is not a number (the
  scan stops at the first character that is not a digit), \<open>ValueError\<close> as soon as the
  digits read exceed \<open>2 ^ 63 - 1\<close>, the largest index of a 64-bit build.\<close>

fun get_integer :: "nat \<Rightarrow> string \<Rightarrow> py_error + nat option" where
  "get_integer accumulator [] = Inr (Some accumulator)"
| "get_integer accumulator (d # ds) =
     (if \<not> isdecimal d then Inr None
      else if accumulator > (2 ^ 63 - 1 - (of_char d - 48)) div 10 then Inl ValueError
      else get_integer (accumulator * 10 + (of_char d - 48)) ds)"

definition get_field :: "(string \<rightharpoonup> string) \<Rightarrow> string \<Rightarrow> string result" where
  "get_field kwargs name =
     (let first = takeWhile (\<lambda>c. c \<noteq> CHR ''.'') name
      in if first = [] then Raises IndexError
         else (case get_integer 0 first of
                 Inl e \<Rightarrow> Raises e
               | Inr (Some i) \<Rightarrow> Raises IndexError
               | Inr None \<Rightarrow>
                   (case kwargs first of
                      None \<Rightarrow> Raises (KeyError first)
                    | Some v \<Rightarrow> if first = name then Returns v else Unmodelled)))"

text \<open>The second argument is \<open>None\<close> in literal text and \<open>Some name\<close> inside a field,
  \<open>name\<close> being the part of the field name read so far.\<close>

fun format_from :: "(string \<rightharpoonup> string) \<Rightarrow> string option \<Rightarrow> string \<Rightarrow> string result" where
  "format_from kwargs None [] = Returns []"
| "format_from kwargs None (c # cs) =
     (if c = CHR ''}'' then
        (case cs of
           [] \<Rightarrow> Raises ValueError
         | d # r \<Rightarrow>
             if d = CHR ''}'' then map_result ((#) CHR ''}'') (format_from kwargs None r)
             else Raises ValueError)
      else if c = CHR ''{'' then
        (case cs of
           [] \<Rightarrow> Raises ValueError
         | d # r \<Rightarrow>
             if d = CHR ''{'' then map_result ((#) CHR ''{'') (format_from kwargs None r)
             else format_from kwargs (Some []) cs)
      else map_result ((#) c) (format_from kwargs None cs))"
| "format_from kwargs (Some name) [] = Raises ValueError"
| "format_from kwargs (Some name) (c # cs) =
     (if c = CHR ''{'' then Raises ValueError
      else if c = CHR ''}'' then
        (case get_field kwargs name of
           Returns v \<Rightarrow> map_result ((@) v) (format_from kwargs None cs)
         | Raises e \<Rightarrow> Raises e
         | Unmodelled \<Rightarrow> Unmodelled)
      else if c = CHR ''['' \<or> c = CHR '':'' \<or> c = CHR ''!'' then Unmodelled
      else format_from kwargs (Some (name @ [c])) cs)"

definition str_format :: "string \<Rightarrow> (string \<rightharpoonup> string) \<Rightarrow> string result" where
  "str_format template kwargs = format_from kwargs None template"

section \<open>Dataframes\<close>

text \<open>
  A pandas dataframe: its column labels, in order, and its rows. The labels are strings
  (the \<open>.str\<close> accessor the code uses exists only then); \<open>'v\<close> is the type of a cell.
\<close>

record 'v dataframe =
  columns :: "string list"
  rows :: "'v list list"

section \<open>The merge statement\<close>

text \<open>
  Lines 174 to 199 of \<open>merge_tmp_into_target_tbl\<close>: the statement is built by
  concatenation, and line 185 replaces the column labels of the caller's dataframe by
  the stripped ones. The result is the dataframe after line 185 and the value of
  \<open>merge_query\<close> after line 199, still with the four fields \<open>{schema}\<close>, \<open>{tbl}\<close>,
  \<open>{schema_tmp}\<close> and \<open>{tbl_tmp}\<close> in it.
\<close>

definition mtt_merge_query :: "'v dataframe \<Rightarrow> string \<Rightarrow> 'v dataframe \<times> string" where
  \<open>mtt_merge_query dataframe pk_columns =
     (let pk_columns_list = map str_strip (str_split CHR '','' pk_columns);
          q0 = ''MERGE INTO {schema}.{tbl} target_tbl USING {schema_tmp}.{tbl_tmp} tmp ON ('';
          q1 = foldl (\<lambda>q i. q @ ''target_tbl."'' @ i @ ''"'' @ '' = tmp."'' @ i @ ''" AND '')
                 q0 pk_columns_list;
          q2 = take (length q1 - 5) q1 @ '') '';
          q3 = q2 @ ''WHEN MATCHED THEN UPDATE SET target_tbl."UPDATE_TIMESTAMP" = tmp."UPDATE_TIMESTAMP"'';
          cols_not_to_merge = pk_columns_list @ [''INSERT_TIMESTAMP'', ''UPDATE_TIMESTAMP''];
          dataframe' = dataframe\<lparr>columns := map str_strip (columns dataframe)\<rparr>;
          cols_merge = filter (\<lambda>col. col \<notin> set cols_not_to_merge) (columns dataframe');
          q4 = foldl (\<lambda>q i. q @ '', target_tbl."'' @ str_strip i @ ''" = tmp."'' @ str_strip i @ ''"'')
                 q3 cols_merge;
          q5 = q4 @ '' WHEN NOT MATCHED THEN INSERT ("INSERT_TIMESTAMP", "UPDATE_TIMESTAMP", '' @
                 ''"'' @ str_join ''", "'' (pk_columns_list @ cols_merge) @ ''"'' @
                 '') VALUES (tmp."INSERT_TIMESTAMP", tmp."UPDATE_TIMESTAMP"'';
          q6 = foldl (\<lambda>q i. q @ '', tmp."'' @ str_strip i @ ''"'')
                 q5 (pk_columns_list @ cols_merge);
          q7 = q6 @ '');''
      in (dataframe', q7))\<close>

text \<open>Lines 365 to 388 of \<open>print_merge_query\<close>: the same text a second time, on the
  dataframe fetched from the staging table.\<close>

definition pmq_merge_query :: "'v dataframe \<Rightarrow> string \<Rightarrow> 'v dataframe \<times> string" where
  \<open>pmq_merge_query dataframe pk_columns =
     (let pk_columns_list = map str_strip (str_split CHR '','' pk_columns);
          q0 = ''MERGE INTO {schema}.{tbl} target_tbl USING {schema_tmp}.{tbl_tmp} tmp ON ('';
          q1 = foldl (\<lambda>q i. q @ ''target_tbl."'' @ i @ ''"'' @ '' = tmp."'' @ i @ ''" AND '')
                 q0 pk_columns_list;
          q2 = take (length q1 - 5) q1 @ '') '';
          q3 = q2 @ ''WHEN MATCHED THEN UPDATE SET target_tbl."UPDATE_TIMESTAMP" = tmp."UPDATE_TIMESTAMP"'';
          cols_not_to_merge = pk_columns_list @ [''INSERT_TIMESTAMP'', ''UPDATE_TIMESTAMP''];
          dataframe' = dataframe\<lparr>columns := map str_strip (columns dataframe)\<rparr>;
          cols_merge = filter (\<lambda>col. col \<notin> set cols_not_to_merge) (columns dataframe');
          q4 = foldl (\<lambda>q i. q @ '', target_tbl."'' @ str_strip i @ ''" = tmp."'' @ str_strip i @ ''"'')
                 q3 cols_merge;
          q5 = q4 @ '' WHEN NOT MATCHED THEN INSERT ("INSERT_TIMESTAMP", "UPDATE_TIMESTAMP", '' @
                 ''"'' @ str_join ''", "'' (pk_columns_list @ cols_merge) @ ''"'' @
                 '') VALUES (tmp."INSERT_TIMESTAMP", tmp."UPDATE_TIMESTAMP"'';
          q6 = foldl (\<lambda>q i. q @ '', tmp."'' @ str_strip i @ ''"'')
                 q5 (pk_columns_list @ cols_merge);
          q7 = q6 @ '');''
      in (dataframe', q7))\<close>

section \<open>The collaborators\<close>

text \<open>
  The database connection, the driver's \<open>connect\<close> and the dotenv loader are outside the
  repository. Every call made to them is recorded, in order, in \<open>calls\<close>; what a call does
  (return, or raise) is given by the \<open>connection\<close> record as a function of the calls made
  before it, so that any deterministic behaviour of the database is an instance.
  \<open>logged\<close> holds the messages passed to \<open>logger.info\<close> (the logger that
  \<open>set_logging\<close> returns writes them to standard output with a time stamp) and
  \<open>printed\<close> the arguments of \<open>print\<close>.
\<close>

datatype 'v call =
    Execute string
  | Import_from_pandas "'v dataframe" string string
  | Export_to_pandas string
  | Load_dotenv string
  | Connect string string string

record 'v connection =
  execute :: "'v call list \<Rightarrow> string \<Rightarrow> py_error option"
  import_from_pandas :: "'v call list \<Rightarrow> 'v dataframe \<Rightarrow> string \<times> string \<Rightarrow> py_error option"
  export_to_pandas :: "'v call list \<Rightarrow> string \<Rightarrow> py_error + 'v dataframe"
  connect :: "'v call list \<Rightarrow> string \<Rightarrow> string \<Rightarrow> string \<Rightarrow> py_error option"
  cell_str :: "'v \<Rightarrow> string"

record 'v world =
  calls :: "'v call list"
  logged :: "string list"
  printed :: "string list"

definition info :: "string \<Rightarrow> 'v world \<Rightarrow> 'v world" where
  "info msg w = w\<lparr>logged := logged w @ [msg]\<rparr>"

definition conn_execute :: "'v connection \<Rightarrow> string \<Rightarrow> 'v world \<Rightarrow> (py_error + unit) \<times> 'v world" where
  "conn_execute conn sql w =
     (let w' = w\<lparr>calls := calls w @ [Execute sql]\<rparr>
      in case execute conn (calls w) sql of
           Some e \<Rightarrow> (Inl e, w')
         | None \<Rightarrow> (Inr (), w'))"

definition conn_import_from_pandas ::
  "'v connection \<Rightarrow> 'v dataframe \<Rightarrow> string \<times> string \<Rightarrow> 'v world \<Rightarrow> (py_error + unit) \<times> 'v world" where
  "conn_import_from_pandas conn df tbl w =
     (let w' = w\<lparr>calls := calls w @ [Import_from_pandas df (fst tbl) (snd tbl)]\<rparr>
      in case import_from_pandas conn (calls w) df tbl of
           Some e \<Rightarrow> (Inl e, w')
         | None \<Rightarrow> (Inr (), w'))"

definition conn_export_to_pandas ::
  "'v connection \<Rightarrow> string \<Rightarrow> 'v world \<Rightarrow> (py_error + 'v dataframe) \<times> 'v world" where
  "conn_export_to_pandas conn sql w =
     (export_to_pandas conn (calls w) sql, w\<lparr>calls := calls w @ [Export_to_pandas sql]\<rparr>)"

text \<open>
  \<open>check_df["COUNT_ROWS"][0]\<close>: the column labelled \<open>COUNT_ROWS\<close> (\<open>KeyError\<close> when
  there is none; with several, the selection is a dataframe and \<open>[0]\<close> looks for a column
  labelled 0), then the entry at row label 0 of the default index (\<open>KeyError\<close> when the
  frame has no row).
\<close>

definition count_rows_0 :: "'v dataframe \<Rightarrow> py_error + 'v" where
  "count_rows_0 check_df =
     (case filter (\<lambda>j. columns check_df ! j = ''COUNT_ROWS'') [0..<length (columns check_df)] of
        [] \<Rightarrow> Inl (KeyError ''COUNT_ROWS'')
      | [j] \<Rightarrow>
          (case rows check_df of
             [] \<Rightarrow> Inl (KeyError ''0'')
           | r # _ \<Rightarrow> if j < length r then Inr (r ! j) else Inl IndexError)
      | _ # _ # _ \<Rightarrow> Inl (KeyError ''0''))"

section \<open>merge_tmp_into_target_tbl\<close>

text \<open>
  The result is what the call raises or returns, the caller's dataframe object as the
  call leaves it, and the world after the call. No statement of the function stands in
  a \<open>try\<close>, so whatever a step raises leaves the function there. Where the format
  string is outside the modelled fragment the result is \<open>Unmodelled\<close>, and the model
  follows the call no further.
\<close>

definition merge_tmp_into_target_tbl ::
  "'v connection \<Rightarrow> 'v dataframe \<Rightarrow> string \<Rightarrow> string \<Rightarrow> string \<Rightarrow> string option \<Rightarrow> string option \<Rightarrow>
   'v world \<Rightarrow> unit result \<times> 'v dataframe \<times> 'v world" where
  "merge_tmp_into_target_tbl exa_connection dataframe pk_columns exasol_schema exasol_table
     temp_schema temp_tbl w =
     (let tmp_table = (case temp_tbl of None \<Rightarrow> exasol_table | Some t \<Rightarrow> t);
          tmp_schema = (case temp_schema of None \<Rightarrow> exasol_schema @ ''_TMP'' | Some s \<Rightarrow> s);
          w1 = info (''Truncating table: '' @ tmp_schema @ ''.'' @ tmp_table) w
      in case conn_execute exa_connection (''TRUNCATE TABLE '' @ tmp_schema @ ''.'' @ tmp_table) w1 of
           (Inl e, w2) \<Rightarrow> (Raises e, dataframe, w2)
         | (Inr _, w2) \<Rightarrow>
       (case conn_import_from_pandas exa_connection dataframe (tmp_schema, tmp_table) w2 of
           (Inl e, w3) \<Rightarrow> (Raises e, dataframe, w3)
         | (Inr _, w3) \<Rightarrow>
       (let w4 = info (''Data loaded successfully to the Temp table - '' @ tmp_schema @ ''.'' @ tmp_table) w3;
            w5 = info ''Start merging...'' w4;
            (dataframe', merge_query) = mtt_merge_query dataframe pk_columns
        in case str_format merge_query
                  (map_of [(''schema'', exasol_schema), (''tbl'', exasol_table),
                           (''schema_tmp'', tmp_schema), (''tbl_tmp'', tmp_table)]) of
             Raises e \<Rightarrow> (Raises e, dataframe', w5)
           | Unmodelled \<Rightarrow> (Unmodelled, dataframe', w5)
           | Returns sql \<Rightarrow>
       (case conn_execute exa_connection sql w5 of
           (Inl e, w6) \<Rightarrow> (Raises e, dataframe', w6)
         | (Inr _, w6) \<Rightarrow>
       (case conn_export_to_pandas exa_connection
               (''SELECT COUNT(*) AS COUNT_ROWS FROM '' @ exasol_schema @ ''.'' @ exasol_table @
                '' \<newline>                                    WHERE TO_DATE(UPDATE_TIMESTAMP) = CURRENT_DATE;'') w6 of
           (Inl e, w7) \<Rightarrow> (Raises e, dataframe', w7)
         | (Inr check_df, w7) \<Rightarrow>
       (case count_rows_0 check_df of
           Inl e \<Rightarrow> (Raises e, dataframe', w7)
         | Inr n \<Rightarrow>
       (let w8 = info (cell_str exa_connection n @ '' rows inserted today.'') w7;
            w9 = info (''-------------- MERGE TO '' @ exasol_schema @ ''.'' @ exasol_table @
                       '' COMPLETE -----------------------'') w8
        in (Returns (), dataframe', w9))))))))"

section \<open>print_merge_query\<close>

text \<open>\<open>return_exa_conn\<close>: the driver's \<open>connect\<close> on the three environment variables
  named by the arguments. The connection it returns answers as \<open>conn\<close> does.\<close>

definition return_exa_conn ::
  "'v connection \<Rightarrow> string \<Rightarrow> string \<Rightarrow> string \<Rightarrow> 'v world \<Rightarrow> (py_error + unit) \<times> 'v world" where
  "return_exa_conn conn exa_user exa_pwd exa_dsn w =
     (let w' = w\<lparr>calls := calls w @ [Connect exa_user exa_pwd exa_dsn]\<rparr>
      in case connect conn (calls w) exa_user exa_pwd exa_dsn of
           Some e \<Rightarrow> (Inl e, w')
         | None \<Rightarrow> (Inr (), info ''Successfully connected to Exasol.'' w'))"

definition print_merge_query ::
  "'v connection \<Rightarrow> string \<Rightarrow> string \<Rightarrow> string \<Rightarrow> string option \<Rightarrow> string option \<Rightarrow>
   'v world \<Rightarrow> unit result \<times> 'v world" where
  "print_merge_query conn pk_columns exasol_schema exasol_table temp_schema temp_tbl w =
     (let w1 = w\<lparr>calls := calls w @ [Load_dotenv ''.env'']\<rparr>
      in case return_exa_conn conn ''DWHEXA_USER'' ''DWHEXA_PASSWORD'' ''DWHEXA_HOST'' w1 of
           (Inl e, w2) \<Rightarrow> (Raises e, w2)
         | (Inr _, w2) \<Rightarrow>
       (let tmp_table = (case temp_tbl of None \<Rightarrow> exasol_table | Some t \<Rightarrow> t);
            tmp_schema = (case temp_schema of None \<Rightarrow> exasol_schema @ ''_TMP'' | Some s \<Rightarrow> s)
        in case conn_export_to_pandas conn (''SELECT * FROM '' @ tmp_schema @ ''.'' @ tmp_table) w2 of
             (Inl e, w3) \<Rightarrow> (Raises e, w3)
           | (Inr dataframe, w3) \<Rightarrow>
       (let (dataframe', merge_query) = pmq_merge_query dataframe pk_columns
        in case str_format merge_query
                  (map_of [(''schema'', exasol_schema), (''tbl'', exasol_table),
                           (''schema_tmp'', tmp_schema), (''tbl_tmp'', tmp_table)]) of
             Raises e \<Rightarrow> (Raises e, w3)
           | Unmodelled \<Rightarrow> (Unmodelled, w3)
           | Returns sql \<Rightarrow> (Returns (), w3\<lparr>printed := printed w3 @ [sql]\<rparr>))))"

section \<open>deployment\<close>

text \<open>
  \<open>env\<close> is \<open>None\<close> or a string; \<open>prod_flag\<close> (the parameter \<open>prod\<close>) and \<open>dev\<close> are
  booleans. \<open>exit()\<close> raises \<open>SystemExit\<close>, which is not an \<open>Exception\<close>: the handler of
  line 121 does not catch it. With arguments of these types no comparison of the body
  raises, so the handler is never entered and the model has no branch for it. The result
  is what the call raises or returns, and the world with the message logged.
\<close>

definition deployment :: "string option \<Rightarrow> bool \<Rightarrow> bool \<Rightarrow> 'v world \<Rightarrow> (py_error + unit) \<times> 'v world" where
  "deployment env prod_flag dev w =
     (if prod_flag = False \<and> dev = False \<and> env = None then
        (Inl SystemExit, info ''runs neither in prod nor dev'' w)
      else if prod_flag = False \<and> dev = False \<and> env = Some ''prod'' then
        (Inl SystemExit, info ''runs neither in prod nor dev'' w)
      else if prod_flag = False \<and> dev = False \<and> env = Some ''dev'' then
        (Inl SystemExit, info ''runs neither in prod nor dev'' w)
      else if env = None then
        (Inr (), info ''runs in prod and dev'' w)
      else if prod_flag = True \<and> dev = True \<and> env = Some ''prod'' then
        (Inr (), info ''runs in prod and dev'' w)
      else if prod_flag = True \<and> dev = True \<and> env = Some ''dev'' then
        (Inr (), info ''runs in prod and dev'' w)
      else if prod_flag = True \<and> dev = False \<and> env = Some ''prod'' then
        (Inr (), info ''runs in prod only'' w)
      else if prod_flag = True \<and> dev = False \<and> env = Some ''dev'' then
        (Inl SystemExit, info ''not running in dev - exit script'' w)
      else if prod_flag = False \<and> dev = True \<and> env = Some ''dev'' then
        (Inr (), info ''runs in dev only'' w)
      else if prod_flag = False \<and> dev = True \<and> env = Some ''prod'' then
        (Inl SystemExit, info ''not running in prod - exit script'' w)
      else (Inr (), w))"

section \<open>The statement as a function of the arguments\<close>

text \<open>
  The string that line 200 passes to \<open>connection.execute\<close>, and the one that line 389
  passes to \<open>print\<close>, as functions of the arguments (and, for \<open>print_merge_query\<close>, of
  the dataframe fetched at line 364): \<open>Raises\<close> when \<open>format\<close> raises.
\<close>

definition mtt_statement ::
  "'v dataframe \<Rightarrow> string \<Rightarrow> string \<Rightarrow> string \<Rightarrow> string option \<Rightarrow> string option \<Rightarrow> string result" where
  "mtt_statement dataframe pk_columns exasol_schema exasol_table temp_schema temp_tbl =
     (let tmp_table = (case temp_tbl of None \<Rightarrow> exasol_table | Some t \<Rightarrow> t);
          tmp_schema = (case temp_schema of None \<Rightarrow> exasol_schema @ ''_TMP'' | Some s \<Rightarrow> s)
      in str_format (snd (mtt_merge_query dataframe pk_columns))
           (map_of [(''schema'', exasol_schema), (''tbl'', exasol_table),
                    (''schema_tmp'', tmp_schema), (''tbl_tmp'', tmp_table)]))"

definition pmq_statement ::
  "'v dataframe \<Rightarrow> string \<Rightarrow> string \<Rightarrow> string \<Rightarrow> string option \<Rightarrow> string option \<Rightarrow> string result" where
  "pmq_statement dataframe pk_columns exasol_schema exasol_table temp_schema temp_tbl =
     (let tmp_table = (case temp_tbl of None \<Rightarrow> exasol_table | Some t \<Rightarrow> t);
          tmp_schema = (case temp_schema of None \<Rightarrow> exasol_schema @ ''_TMP'' | Some s \<Rightarrow> s)
      in str_format (snd (pmq_merge_query dataframe pk_columns))
           (map_of [(''schema'', exasol_schema), (''tbl'', exasol_table),
                    (''schema_tmp'', tmp_schema), (''tbl_tmp'', tmp_table)]))"

section \<open>The specification's vocabulary\<close>

text \<open>
  The definitions of this section follow the specification, not the code: the
  primary-key column list, the columns to merge, the staging location, and the clauses
  of the statement as the specification's grammar gives them.
\<close>

definition pk_names :: "string \<Rightarrow> string list" where
  "pk_names pk_columns = map str_strip (str_split CHR '','' pk_columns)"

definition other_columns :: "'v dataframe \<Rightarrow> string \<Rightarrow> string list" where
  "other_columns dataframe pk_columns =
     filter (\<lambda>c. c \<notin> set (pk_names pk_columns) \<and> c \<noteq> ''INSERT_TIMESTAMP'' \<and> c \<noteq> ''UPDATE_TIMESTAMP'')
       (map str_strip (columns dataframe))"

definition staging_location :: "string \<Rightarrow> string \<Rightarrow> string option \<Rightarrow> string option \<Rightarrow> string \<times> string" where
  "staging_location target_schema target_table schema_override table_override =
     (case schema_override of None \<Rightarrow> target_schema @ ''_TMP'' | Some s \<Rightarrow> s,
      case table_override of None \<Rightarrow> target_table | Some t \<Rightarrow> t)"

definition eq_pair :: "string \<Rightarrow> string" where
  \<open>eq_pair c = ''target_tbl."'' @ c @ ''" = tmp."'' @ c @ ''"''\<close>

definition quoted :: "string \<Rightarrow> string" where
  \<open>quoted c = ''"'' @ c @ ''"''\<close>

definition tmp_col :: "string \<Rightarrow> string" where
  \<open>tmp_col c = ''tmp."'' @ c @ ''"''\<close>

definition merge_head :: "string \<Rightarrow> string \<Rightarrow> string \<times> string \<Rightarrow> string" where
  "merge_head s t staging =
     ''MERGE INTO '' @ s @ ''.'' @ t @ '' target_tbl USING '' @ fst staging @ ''.'' @ snd staging @ '' tmp ''"

definition on_clause :: "string list \<Rightarrow> string" where
  "on_clause pks = ''ON ('' @ str_join '' AND '' (map eq_pair pks) @ '') ''"

definition update_clause :: "string list \<Rightarrow> string" where
  "update_clause others =
     ''WHEN MATCHED THEN UPDATE SET '' @ str_join '', '' (map eq_pair (''UPDATE_TIMESTAMP'' # others))"

definition insert_clause :: "string list \<Rightarrow> string list \<Rightarrow> string" where
  "insert_clause pks others =
     '' WHEN NOT MATCHED THEN INSERT ('' @
     str_join '', '' (map quoted (''INSERT_TIMESTAMP'' # ''UPDATE_TIMESTAMP'' # pks @ others)) @
     '') VALUES ('' @
     str_join '', '' (map tmp_col (''INSERT_TIMESTAMP'' # ''UPDATE_TIMESTAMP'' # pks @ others)) @
     '');''"

text \<open>Names without a brace, and names without a double quote.\<close>

definition brace_free :: "string \<Rightarrow> bool" where
  "brace_free s = (CHR ''{'' \<notin> set s \<and> CHR ''}'' \<notin> set s)"

definition quote_free :: "string \<Rightarrow> bool" where
  "quote_free s = (CHR 0x22 \<notin> set s)"

text \<open>
  A parser for a list of double-quoted names separated by a comma and a blank, the form
  of the column list of the insert clause. A name ends at the next double quote.
\<close>

datatype scan = Before | Inside string | After | Comma

fun parse_from :: "scan \<Rightarrow> string \<Rightarrow> string list option" where
  "parse_from Before [] = None"
| "parse_from Before (c # s) = (if c = CHR 0x22 then parse_from (Inside []) s else None)"
| "parse_from (Inside n) [] = None"
| "parse_from (Inside n) (c # s) =
     (if c = CHR 0x22 then map_option ((#) n) (parse_from After s)
      else parse_from (Inside (n @ [c])) s)"
| "parse_from After [] = Some []"
| "parse_from After (c # s) = (if c = CHR '','' then parse_from Comma s else None)"
| "parse_from Comma [] = None"
| "parse_from Comma (c # s) = (if c = CHR '' '' then parse_from Before s else None)"

definition parse_column_list :: "string \<Rightarrow> string list option" where
  "parse_column_list s = parse_from Before s"



text \<open>
  Connections for the examples: on \<open>conn_ok\<close> every call returns, and the count query
  returns one row with the cell 0; \<open>conn_failing k\<close> is \<open>conn_ok\<close>, but the call made
  after \<open>k\<close> earlier ones raises. \<open>world0\<close> is a world in which nothing has happened yet, and
  \<open>frame0\<close> a dataframe with one row and a padded label.
\<close>

definition conn_ok :: "nat connection" where
  "conn_ok = \<lparr>execute = (\<lambda>_ _. None), import_from_pandas = (\<lambda>_ _ _. None),
              export_to_pandas = (\<lambda>_ _. Inr \<lparr>columns = [''COUNT_ROWS''], rows = [[0]]\<rparr>),
              connect = (\<lambda>_ _ _ _. None), cell_str = (\<lambda>_. ''0'')\<rparr>"

definition conn_failing :: "nat \<Rightarrow> nat connection" where
  "conn_failing k =
     \<lparr>execute = (\<lambda>h _. if length h = k then Some (External ''ExaQueryError'') else None),
      import_from_pandas = (\<lambda>h _ _. if length h = k then Some (External ''ExaQueryError'') else None),
      export_to_pandas = (\<lambda>h _. if length h = k then Inl (External ''ExaQueryError'')
                                  else Inr \<lparr>columns = [''COUNT_ROWS''], rows = [[0]]\<rparr>),
      connect = (\<lambda>h _ _ _. if length h = k then Some (External ''ExaConnectionError'') else None),
      cell_str = (\<lambda>_. ''0'')\<rparr>"

definition world0 :: "nat world" where
  "world0 = \<lparr>calls = [], logged = [], printed = []\<rparr>"

definition frame0 :: "nat dataframe" where
  "frame0 = \<lparr>columns = [''ID'', '' V ''], rows = [[1, 2]]\<rparr>"




text \<open>
  More examples: \<open>frame1\<close> has two padded labels before the key, \<open>staged1\<close> is what the
  staging table holds once \<open>frame1\<close> is loaded, and \<open>conn_staging\<close> is \<open>conn_ok\<close> with a
  staging table that holds \<open>staged1\<close>. \<open>frame2\<close> has a label that is a replacement field.
\<close>

definition frame1 :: "nat dataframe" where
  "frame1 = \<lparr>columns = ['' A'', ''B '', ''ID''], rows = [[1, 2, 3]]\<rparr>"

definition staged1 :: "nat dataframe" where
  "staged1 = \<lparr>columns = [''A'', ''B'', ''ID''], rows = [[1, 2, 3]]\<rparr>"

definition conn_staging :: "nat connection" where
  "conn_staging =
     \<lparr>execute = (\<lambda>_ _. None), import_from_pandas = (\<lambda>_ _ _. None),
      export_to_pandas = (\<lambda>_ sql. if take 8 sql = ''SELECT *'' then Inr staged1
                                    else Inr \<lparr>columns = [''COUNT_ROWS''], rows = [[0]]\<rparr>),
      connect = (\<lambda>_ _ _ _. None), cell_str = (\<lambda>_. ''0'')\<rparr>"

definition frame2 :: "nat dataframe" where
  "frame2 = \<lparr>columns = [''{tbl}'', ''PRICE''], rows = [[1, 2]]\<rparr>"

section \<open>Strings, loops and the formatter\<close>

lemma str_split_not_Nil: "str_split sep s \<noteq> []"
  by (induction s) (auto split: list.splits)

lemma foldl_append_concat: "foldl (\<lambda>q i. q @ f i) q xs = q @ concat (map f xs)"
  by (induction xs arbitrary: q) auto

lemma str_join_Cons: "str_join sep (x # xs) = x @ concat (map (\<lambda>y. sep @ y) xs)"
  by (induction xs arbitrary: x) auto

lemma concat_with_sep: "xs \<noteq> [] \<Longrightarrow> concat (map (\<lambda>i. g i @ sep) xs) = str_join sep (map g xs) @ sep"
proof (induction xs)
  case Nil then show ?case by simp
next
  case (Cons x xs)
  show ?case
  proof (cases xs)
    case Nil then show ?thesis by simp
  next
    case (Cons y ys)
    with Cons.IH show ?thesis by simp
  qed
qed

lemma str_strip_idem: "str_strip (str_strip s) = str_strip s"
proof -
  let ?a = "dropWhile isspace s"
  let ?b = "dropWhile isspace (rev ?a)"
  have "dropWhile isspace (rev ?b) = rev ?b"
  proof (cases "rev ?b")
    case Nil then show ?thesis unfolding Nil by simp
  next
    case (Cons c cs)
    have "?b \<noteq> []" using Cons by auto
    then have ne: "\<exists>x \<in> set (rev ?a). \<not> isspace x"
      by (metis dropWhile_eq_Nil_conv)
    then obtain x where "x \<in> set ?a" by auto
    then have "?a \<noteq> []" by (metis length_pos_if_in_set length_greater_0_conv)
    then have "\<not> isspace (hd ?a)" by (rule hd_dropWhile)
    have sfx: "\<exists>ys. rev ?a = ys @ ?b"
      by (metis takeWhile_dropWhile_id)
    then obtain ys where ys: "rev ?a = ys @ ?b" by blast
    then have "?a = rev ?b @ rev ys" by (metis rev_append rev_rev_ident)
    with Cons have "hd ?a = c" by simp
    with \<open>\<not> isspace (hd ?a)\<close> Cons show ?thesis by simp
  qed
  then show ?thesis by (simp add: str_strip_def)
qed

lemma pk_names_not_Nil: "pk_names pk \<noteq> []"
  by (simp add: pk_names_def str_split_not_Nil)

lemma on_loop:
  \<open>pks \<noteq> [] \<Longrightarrow>
   take (length (foldl (\<lambda>q i. q @ ''target_tbl."'' @ i @ ''"'' @ '' = tmp."'' @ i @ ''" AND '') q0 pks) - 5)
        (foldl (\<lambda>q i. q @ ''target_tbl."'' @ i @ ''"'' @ '' = tmp."'' @ i @ ''" AND '') q0 pks)
   = q0 @ str_join '' AND '' (map eq_pair pks)\<close>
proof -
  assume ne: "pks \<noteq> []"
  have f: \<open>(\<lambda>i. ''target_tbl."'' @ i @ ''"'' @ '' = tmp."'' @ i @ ''" AND '') = (\<lambda>i. eq_pair i @ '' AND '')\<close>
    by (rule ext) (simp add: eq_pair_def)
  show ?thesis
    unfolding foldl_append_concat f concat_with_sep [OF ne] by simp
qed

lemma update_loop:
  \<open>\<forall>c \<in> set cs. str_strip c = c \<Longrightarrow>
   foldl (\<lambda>q i. q @ '', target_tbl."'' @ str_strip i @ ''" = tmp."'' @ str_strip i @ ''"'')
     (q @ ''WHEN MATCHED THEN UPDATE SET target_tbl."UPDATE_TIMESTAMP" = tmp."UPDATE_TIMESTAMP"'') cs
   = q @ update_clause cs\<close>
proof -
  assume st: "\<forall>c \<in> set cs. str_strip c = c"
  have m: \<open>map (\<lambda>i. '', target_tbl."'' @ str_strip i @ ''" = tmp."'' @ str_strip i @ ''"'') cs
         = map (\<lambda>y. '', '' @ y) (map eq_pair cs)\<close>
    using st by (simp add: eq_pair_def)
  show ?thesis
    unfolding foldl_append_concat m update_clause_def list.map str_join_Cons
    by (simp add: eq_pair_def)
qed

lemma quoted_join:
  \<open>xs \<noteq> [] \<Longrightarrow> ''"'' @ str_join ''", "'' xs @ ''"'' = str_join '', '' (map quoted xs)\<close>
proof (induction xs)
  case Nil then show ?case by simp
next
  case (Cons x xs)
  show ?case
  proof (cases xs)
    case Nil then show ?thesis by (simp add: quoted_def)
  next
    case (Cons y ys)
    with Cons.IH show ?thesis by (simp add: quoted_def)
  qed
qed

lemma values_loop:
  \<open>\<forall>c \<in> set cs. str_strip c = c \<Longrightarrow>
   foldl (\<lambda>q i. q @ '', tmp."'' @ str_strip i @ ''"'')
     (q @ '') VALUES (tmp."INSERT_TIMESTAMP", tmp."UPDATE_TIMESTAMP"'') cs
   = q @ '') VALUES ('' @ str_join '', '' (map tmp_col (''INSERT_TIMESTAMP'' # ''UPDATE_TIMESTAMP'' # cs))\<close>
proof -
  assume st: "\<forall>c \<in> set cs. str_strip c = c"
  have m: \<open>map (\<lambda>i. '', tmp."'' @ str_strip i @ ''"'') cs = map (\<lambda>y. '', '' @ y) (map tmp_col cs)\<close>
    using st by (simp add: tmp_col_def)
  show ?thesis
    unfolding foldl_append_concat m list.map str_join_Cons
    by (simp add: tmp_col_def)
qed

lemma str_strip_pk_names: "\<forall>c \<in> set (pk_names pk). str_strip c = c"
  by (auto simp: pk_names_def str_strip_idem)

lemma str_strip_other_columns: "\<forall>c \<in> set (other_columns df pk). str_strip c = c"
  by (auto simp: other_columns_def str_strip_idem)

lemma insert_join:
  \<open>xs \<noteq> [] \<Longrightarrow>
   '' WHEN NOT MATCHED THEN INSERT ("INSERT_TIMESTAMP", "UPDATE_TIMESTAMP", '' @
     ''"'' @ str_join ''", "'' xs @ ''"'' @ r
   = '' WHEN NOT MATCHED THEN INSERT ('' @
     str_join '', '' (map quoted (''INSERT_TIMESTAMP'' # ''UPDATE_TIMESTAMP'' # xs)) @ r\<close>
proof -
  assume ne: "xs \<noteq> []"
  have \<open>''"'' @ str_join ''", "'' xs @ ''"'' @ r = str_join '', '' (map quoted xs) @ r\<close>
    using quoted_join [OF ne] by (metis append_assoc)
  moreover obtain y ys where "map quoted xs = y # ys" using ne by (cases xs) auto
  ultimately show ?thesis by (simp add: quoted_def)
qed

lemma merge_query_text:
  assumes ne1: "pks \<noteq> []" and st: "\<forall>c \<in> set (pks @ cs). str_strip c = c"
  shows
  \<open>(let q0 = ''MERGE INTO {schema}.{tbl} target_tbl USING {schema_tmp}.{tbl_tmp} tmp ON ('';
        q1 = foldl (\<lambda>q i. q @ ''target_tbl."'' @ i @ ''"'' @ '' = tmp."'' @ i @ ''" AND '') q0 pks;
        q2 = take (length q1 - 5) q1 @ '') '';
        q3 = q2 @ ''WHEN MATCHED THEN UPDATE SET target_tbl."UPDATE_TIMESTAMP" = tmp."UPDATE_TIMESTAMP"'';
        q4 = foldl (\<lambda>q i. q @ '', target_tbl."'' @ str_strip i @ ''" = tmp."'' @ str_strip i @ ''"'') q3 cs;
        q5 = q4 @ '' WHEN NOT MATCHED THEN INSERT ("INSERT_TIMESTAMP", "UPDATE_TIMESTAMP", '' @
               ''"'' @ str_join ''", "'' (pks @ cs) @ ''"'' @
               '') VALUES (tmp."INSERT_TIMESTAMP", tmp."UPDATE_TIMESTAMP"'';
        q6 = foldl (\<lambda>q i. q @ '', tmp."'' @ str_strip i @ ''"'') q5 (pks @ cs);
        q7 = q6 @ '');''
    in q7) =
     ''MERGE INTO {schema}.{tbl} target_tbl USING {schema_tmp}.{tbl_tmp} tmp '' @
     on_clause pks @ update_clause cs @ insert_clause pks cs\<close>
proof -
  have st2: "\<forall>c \<in> set cs. str_strip c = c" using st by simp
  have ne: "pks @ cs \<noteq> []" using ne1 by simp
  have re: "\<And>a b c d :: string. a @ b @ c @ d = (a @ b @ c) @ d" by simp
  show ?thesis
    unfolding Let_def on_loop [OF ne1] update_loop [OF st2] insert_join [OF ne]
    unfolding re [of _ "'' WHEN NOT MATCHED THEN INSERT (''"] values_loop [OF st]
    by (simp add: on_clause_def insert_clause_def)
qed

lemma stripped_names: "\<forall>c \<in> set (pk_names pk @ other_columns df pk). str_strip c = c"
  using str_strip_pk_names [of pk] str_strip_other_columns [of df pk] by auto

lemma mtt_merge_query_text:
  "snd (mtt_merge_query df pk) =
     ''MERGE INTO {schema}.{tbl} target_tbl USING {schema_tmp}.{tbl_tmp} tmp '' @
     on_clause (pk_names pk) @ update_clause (other_columns df pk) @
     insert_clause (pk_names pk) (other_columns df pk)"
  unfolding merge_query_text [OF pk_names_not_Nil stripped_names, symmetric]
  by (simp add: mtt_merge_query_def Let_def pk_names_def other_columns_def conj_ac)

lemma pmq_merge_query_text:
  "snd (pmq_merge_query df pk) =
     ''MERGE INTO {schema}.{tbl} target_tbl USING {schema_tmp}.{tbl_tmp} tmp '' @
     on_clause (pk_names pk) @ update_clause (other_columns df pk) @
     insert_clause (pk_names pk) (other_columns df pk)"
  unfolding merge_query_text [OF pk_names_not_Nil stripped_names, symmetric]
  by (simp add: pmq_merge_query_def Let_def pk_names_def other_columns_def conj_ac)

lemma format_from_literal:
  "brace_free a \<Longrightarrow> format_from kw None (a @ b) = map_result ((@) a) (format_from kw None b)"
proof (induction a)
  case Nil
  show ?case by (cases "format_from kw None b") simp_all
next
  case (Cons c a)
  then have "brace_free a" and "c \<noteq> CHR ''{''" and "c \<noteq> CHR ''}''"
    by (auto simp: brace_free_def)
  with Cons.IH show ?case
    by (cases "format_from kw None b") simp_all
qed

lemma format_from_brace_free: "brace_free b \<Longrightarrow> format_from kw None b = Returns b"
  using format_from_literal [of b kw "[]"] by simp

lemma str_format_head:
  assumes "brace_free b"
  shows "str_format (''MERGE INTO {schema}.{tbl} target_tbl USING {schema_tmp}.{tbl_tmp} tmp '' @ b)
           (map_of [(''schema'', s), (''tbl'', t), (''schema_tmp'', ts), (''tbl_tmp'', tt)])
         = Returns (merge_head s t (ts, tt) @ b)"
  by (simp add: str_format_def get_field_def isdecimal_def format_from_brace_free [OF assms] merge_head_def)

lemma brace_free_append [simp]: "brace_free (a @ b) \<longleftrightarrow> brace_free a \<and> brace_free b"
  by (auto simp: brace_free_def)

lemma brace_free_str_join:
  "brace_free sep \<Longrightarrow> list_all brace_free xs \<Longrightarrow> brace_free (str_join sep xs)"
  by (induction sep xs rule: str_join.induct) (simp_all add: brace_free_def)

lemma set_str_strip: "set (str_strip s) \<subseteq> set s"
proof -
  have "set (dropWhile isspace (rev (dropWhile isspace s))) \<subseteq> set (rev (dropWhile isspace s))"
    by (rule set_dropWhileD [THEN subsetI])
  also have "\<dots> \<subseteq> set s" using set_dropWhileD [of _ isspace s] by auto
  finally show ?thesis by (simp add: str_strip_def)
qed

lemma set_str_split: "x \<in> set (str_split sep s) \<Longrightarrow> set x \<subseteq> set s"
proof (induction s arbitrary: x)
  case Nil then show ?case by simp
next
  case (Cons c s)
  show ?case
  proof (cases "c = sep")
    case True
    with Cons show ?thesis by auto
  next
    case False
    obtain y ys where sp: "str_split sep s = y # ys"
      using str_split_not_Nil [of sep s] by (cases "str_split sep s") auto
    with False Cons.prems have "x = c # y \<or> x \<in> set ys" by simp
    with sp Cons.IH [of y] Cons.IH [of x] show ?thesis by auto
  qed
qed

lemma brace_free_pk_names: "brace_free pk \<Longrightarrow> list_all brace_free (pk_names pk)"
  unfolding list_all_iff pk_names_def brace_free_def
  using set_str_strip set_str_split by fastforce

lemma brace_free_other_columns:
  "list_all brace_free (columns df) \<Longrightarrow> list_all brace_free (other_columns df pk)"
  unfolding list_all_iff other_columns_def brace_free_def
  using set_str_strip by fastforce

lemma brace_free_clauses:
  assumes "list_all brace_free pks" and "list_all brace_free cs"
  shows "brace_free (on_clause pks @ update_clause cs @ insert_clause pks cs)"
proof -
  have e: "list_all brace_free (map eq_pair xs)" if "list_all brace_free xs" for xs
    using that by (induction xs) (simp_all add: eq_pair_def, simp_all add: brace_free_def)
  have q: "list_all brace_free (map quoted xs)" if "list_all brace_free xs" for xs
    using that by (induction xs) (simp_all add: quoted_def, simp_all add: brace_free_def)
  have t: "list_all brace_free (map tmp_col xs)" if "list_all brace_free xs" for xs
    using that by (induction xs) (simp_all add: tmp_col_def, simp_all add: brace_free_def)
  have ut: "brace_free ''UPDATE_TIMESTAMP''" and it: "brace_free ''INSERT_TIMESTAMP''"
    by (simp_all add: brace_free_def)
  have 1: "brace_free (on_clause pks)"
    unfolding on_clause_def brace_free_append
    using brace_free_str_join [OF _ e [OF assms(1)], of "'' AND ''"] by (simp add: brace_free_def)
  have 2: "brace_free (update_clause cs)"
    unfolding update_clause_def brace_free_append
    using brace_free_str_join [OF _ e [of "''UPDATE_TIMESTAMP'' # cs"], of "'', ''"] assms(2) ut
    by (simp add: brace_free_def)
  have all: "list_all brace_free (''INSERT_TIMESTAMP'' # ''UPDATE_TIMESTAMP'' # pks @ cs)"
    using assms ut it by simp
  have 3: "brace_free (insert_clause pks cs)"
    unfolding insert_clause_def brace_free_append
    using brace_free_str_join [OF _ q [OF all], of "'', ''"] brace_free_str_join [OF _ t [OF all], of "'', ''"]
    by (simp add: brace_free_def)
  from 1 2 3 show ?thesis by simp
qed

lemma mtt_statement_text:
  assumes "brace_free pk" and "list_all brace_free (columns df)"
  shows "mtt_statement df pk s t ts tt =
     Returns (merge_head s t (staging_location s t ts tt) @ on_clause (pk_names pk) @
          update_clause (other_columns df pk) @ insert_clause (pk_names pk) (other_columns df pk))"
  unfolding mtt_statement_def Let_def mtt_merge_query_text staging_location_def
  using str_format_head [OF brace_free_clauses [OF brace_free_pk_names [OF assms(1)]
          brace_free_other_columns [OF assms(2)]]]
  by simp

lemma pmq_statement_text:
  assumes "brace_free pk" and "list_all brace_free (columns df)"
  shows "pmq_statement df pk s t ts tt =
     Returns (merge_head s t (staging_location s t ts tt) @ on_clause (pk_names pk) @
          update_clause (other_columns df pk) @ insert_clause (pk_names pk) (other_columns df pk))"
  unfolding pmq_statement_def Let_def pmq_merge_query_text staging_location_def
  using str_format_head [OF brace_free_clauses [OF brace_free_pk_names [OF assms(1)]
          brace_free_other_columns [OF assms(2)]]]
  by simp

section \<open>Columns, parsing and padding\<close>


lemma parse_inside:
  "quote_free n \<Longrightarrow>
   parse_from (Inside acc) (n @ CHR 0x22 # rest) = map_option ((#) (acc @ n)) (parse_from After rest)"
  by (induction n arbitrary: acc) (auto simp: quote_free_def)

lemma parse_quoted:
  "quote_free n \<Longrightarrow> parse_from Before (quoted n @ rest) = map_option ((#) n) (parse_from After rest)"
  using parse_inside [of n "[]" rest] by (simp add: quoted_def)

lemma parse_column_list_join:
  "list_all quote_free xs \<Longrightarrow> xs \<noteq> [] \<Longrightarrow>
   parse_column_list (str_join '', '' (map quoted xs)) = Some xs"
proof (induction xs)
  case Nil then show ?case by simp
next
  case (Cons x xs)
  then have qx: "quote_free x" by simp
  show ?case
  proof (cases xs)
    case Nil
    with parse_quoted [OF qx, of "[]"] show ?thesis by (simp add: parse_column_list_def)
  next
    case (Cons y ys)
    with Cons.IH Cons.prems have ih: "parse_from Before (str_join '', '' (map quoted xs)) = Some xs"
      by (simp add: parse_column_list_def)
    have "str_join '', '' (map quoted (x # xs)) = quoted x @ '', '' @ str_join '', '' (map quoted xs)"
      using Cons by simp
    then show ?thesis
      using parse_quoted [OF qx, of "'', '' @ str_join '', '' (map quoted xs)"] ih
      by (simp add: parse_column_list_def)
  qed
qed

lemma quote_free_pk_names: "quote_free pk \<Longrightarrow> list_all quote_free (pk_names pk)"
  unfolding list_all_iff pk_names_def quote_free_def
  using set_str_strip set_str_split by fastforce

lemma quote_free_other_columns:
  "list_all quote_free (columns df) \<Longrightarrow> list_all quote_free (other_columns df pk)"
  unfolding list_all_iff other_columns_def quote_free_def
  using set_str_strip by fastforce











section \<open>The two functions, case by case\<close>

text \<open>
  The two functions as case distinctions on what the collaborators answer: every branch
  gives what the call raises or returns, the dataframe and the world it leaves.
\<close>

lemma fst_mtt_merge_query: "fst (mtt_merge_query df pk) = df\<lparr>columns := map str_strip (columns df)\<rparr>"
  by (simp add: mtt_merge_query_def Let_def)

lemma merge_run:
  "merge_tmp_into_target_tbl conn df pk s t ts tt w =
     (let loc = staging_location s t ts tt;
          trunc = ''TRUNCATE TABLE '' @ fst loc @ ''.'' @ snd loc;
          c1 = Execute trunc;
          c2 = Import_from_pandas df (fst loc) (snd loc);
          count = ''SELECT COUNT(*) AS COUNT_ROWS FROM '' @ s @ ''.'' @ t @
                  '' \<newline>                                    WHERE TO_DATE(UPDATE_TIMESTAMP) = CURRENT_DATE;'';
          df' = df\<lparr>columns := map str_strip (columns df)\<rparr>;
          l1 = [''Truncating table: '' @ fst loc @ ''.'' @ snd loc];
          l2 = l1 @ [''Data loaded successfully to the Temp table - '' @ fst loc @ ''.'' @ snd loc,
                     ''Start merging...'']
      in case execute conn (calls w) trunc of
           Some e \<Rightarrow> (Raises e, df, w\<lparr>calls := calls w @ [c1], logged := logged w @ l1\<rparr>)
         | None \<Rightarrow>
       (case import_from_pandas conn (calls w @ [c1]) df loc of
           Some e \<Rightarrow> (Raises e, df, w\<lparr>calls := calls w @ [c1, c2], logged := logged w @ l1\<rparr>)
         | None \<Rightarrow>
       (case mtt_statement df pk s t ts tt of
           Raises e \<Rightarrow> (Raises e, df', w\<lparr>calls := calls w @ [c1, c2], logged := logged w @ l2\<rparr>)
         | Unmodelled \<Rightarrow> (Unmodelled, df', w\<lparr>calls := calls w @ [c1, c2], logged := logged w @ l2\<rparr>)
         | Returns sql \<Rightarrow>
       (case execute conn (calls w @ [c1, c2]) sql of
           Some e \<Rightarrow> (Raises e, df', w\<lparr>calls := calls w @ [c1, c2, Execute sql], logged := logged w @ l2\<rparr>)
         | None \<Rightarrow>
       (case export_to_pandas conn (calls w @ [c1, c2, Execute sql]) count of
           Inl e \<Rightarrow> (Raises e, df', w\<lparr>calls := calls w @ [c1, c2, Execute sql, Export_to_pandas count],
                                    logged := logged w @ l2\<rparr>)
         | Inr check_df \<Rightarrow>
       (case count_rows_0 check_df of
           Inl e \<Rightarrow> (Raises e, df', w\<lparr>calls := calls w @ [c1, c2, Execute sql, Export_to_pandas count],
                                    logged := logged w @ l2\<rparr>)
         | Inr n \<Rightarrow>
           (Returns (), df', w\<lparr>calls := calls w @ [c1, c2, Execute sql, Export_to_pandas count],
                           logged := logged w @ l2 @
                             [cell_str conn n @ '' rows inserted today.'',
                              ''-------------- MERGE TO '' @ s @ ''.'' @ t @
                              '' COMPLETE -----------------------'']\<rparr>)))))))"
proof (cases "execute conn (calls w) (''TRUNCATE TABLE '' @ fst (staging_location s t ts tt) @ ''.'' @ snd (staging_location s t ts tt))")
  case (Some e)
  then show ?thesis
    unfolding merge_tmp_into_target_tbl_def staging_location_def conn_execute_def info_def
    by (simp add: Let_def)
next
  case None
  note a = this
  show ?thesis
  proof (cases "import_from_pandas conn
       (calls w @ [Execute (''TRUNCATE TABLE '' @ fst (staging_location s t ts tt) @ ''.'' @ snd (staging_location s t ts tt))])
       df (staging_location s t ts tt)")
    case (Some e)
    with a show ?thesis
      unfolding merge_tmp_into_target_tbl_def staging_location_def conn_execute_def info_def
        conn_import_from_pandas_def
      by (simp add: Let_def)
  next
    case None
    note b = this
    show ?thesis
    proof (cases "mtt_statement df pk s t ts tt")
      case (Raises e)
      with a b show ?thesis
        unfolding merge_tmp_into_target_tbl_def mtt_statement_def staging_location_def conn_execute_def
          info_def conn_import_from_pandas_def
        by (simp add: Let_def split_beta fst_mtt_merge_query)
    next
      case Unmodelled
      with a b show ?thesis
        unfolding merge_tmp_into_target_tbl_def mtt_statement_def staging_location_def conn_execute_def
          info_def conn_import_from_pandas_def
        by (simp add: Let_def split_beta fst_mtt_merge_query)
    next
      case (Returns sql)
      note c = this
      show ?thesis
      proof (cases "execute conn
         (calls w @ [Execute (''TRUNCATE TABLE '' @ fst (staging_location s t ts tt) @ ''.'' @ snd (staging_location s t ts tt)),
                     Import_from_pandas df (fst (staging_location s t ts tt)) (snd (staging_location s t ts tt))]) sql")
        case (Some e)
        with a b c show ?thesis
          unfolding merge_tmp_into_target_tbl_def mtt_statement_def staging_location_def conn_execute_def
            info_def conn_import_from_pandas_def
          by (simp add: Let_def split_beta fst_mtt_merge_query)
      next
        case None
        note d = this
        show ?thesis
        proof (cases "export_to_pandas conn
           (calls w @ [Execute (''TRUNCATE TABLE '' @ fst (staging_location s t ts tt) @ ''.'' @ snd (staging_location s t ts tt)),
                       Import_from_pandas df (fst (staging_location s t ts tt)) (snd (staging_location s t ts tt)),
                       Execute sql])
           (''SELECT COUNT(*) AS COUNT_ROWS FROM '' @ s @ ''.'' @ t @
                  '' \<newline>                                    WHERE TO_DATE(UPDATE_TIMESTAMP) = CURRENT_DATE;'')")
          case (Inl e)
          with a b c d show ?thesis
            unfolding merge_tmp_into_target_tbl_def mtt_statement_def staging_location_def conn_execute_def
              info_def conn_import_from_pandas_def conn_export_to_pandas_def
            by (simp add: Let_def split_beta fst_mtt_merge_query)
        next
          case (Inr check_df)
          with a b c d show ?thesis
            unfolding merge_tmp_into_target_tbl_def mtt_statement_def staging_location_def conn_execute_def
              info_def conn_import_from_pandas_def conn_export_to_pandas_def
            by (cases "count_rows_0 check_df") (simp_all add: Let_def split_beta fst_mtt_merge_query)
        qed
      qed
    qed
  qed
qed

lemma print_run:
  "print_merge_query conn pk s t ts tt w =
     (let loc = staging_location s t ts tt;
          c0 = Load_dotenv ''.env'';
          c1 = Connect ''DWHEXA_USER'' ''DWHEXA_PASSWORD'' ''DWHEXA_HOST'';
          sel = ''SELECT * FROM '' @ fst loc @ ''.'' @ snd loc;
          l1 = [''Successfully connected to Exasol.'']
      in case connect conn (calls w @ [c0]) ''DWHEXA_USER'' ''DWHEXA_PASSWORD'' ''DWHEXA_HOST'' of
           Some e \<Rightarrow> (Raises e, w\<lparr>calls := calls w @ [c0, c1]\<rparr>)
         | None \<Rightarrow>
       (case export_to_pandas conn (calls w @ [c0, c1]) sel of
           Inl e \<Rightarrow> (Raises e, w\<lparr>calls := calls w @ [c0, c1, Export_to_pandas sel], logged := logged w @ l1\<rparr>)
         | Inr fetched \<Rightarrow>
       (case pmq_statement fetched pk s t ts tt of
           Raises e \<Rightarrow> (Raises e, w\<lparr>calls := calls w @ [c0, c1, Export_to_pandas sel], logged := logged w @ l1\<rparr>)
         | Unmodelled \<Rightarrow> (Unmodelled, w\<lparr>calls := calls w @ [c0, c1, Export_to_pandas sel], logged := logged w @ l1\<rparr>)
         | Returns sql \<Rightarrow>
           (Returns (), w\<lparr>calls := calls w @ [c0, c1, Export_to_pandas sel], logged := logged w @ l1,
                        printed := printed w @ [sql]\<rparr>))))"
proof (cases "connect conn (calls w @ [Load_dotenv ''.env'']) ''DWHEXA_USER'' ''DWHEXA_PASSWORD'' ''DWHEXA_HOST''")
  case (Some e)
  then show ?thesis
    unfolding print_merge_query_def return_exa_conn_def info_def
    by (simp add: Let_def)
next
  case None
  note a = this
  show ?thesis
  proof (cases "export_to_pandas conn
      (calls w @ [Load_dotenv ''.env'', Connect ''DWHEXA_USER'' ''DWHEXA_PASSWORD'' ''DWHEXA_HOST''])
      (''SELECT * FROM '' @ fst (staging_location s t ts tt) @ ''.'' @ snd (staging_location s t ts tt))")
    case (Inl e)
    with a show ?thesis
      unfolding print_merge_query_def return_exa_conn_def info_def conn_export_to_pandas_def
        staging_location_def
      by (simp add: Let_def)
  next
    case (Inr fetched)
    with a show ?thesis
      unfolding print_merge_query_def return_exa_conn_def info_def conn_export_to_pandas_def
        staging_location_def pmq_statement_def
      by (cases "pmq_statement fetched pk s t ts tt")
         (simp_all add: Let_def split_beta pmq_statement_def)
  qed
qed

lemma frame0_statement:
  \<open>mtt_statement frame0 ''ID'' ''S'' ''T'' None None
    = Returns (''MERGE INTO S.T target_tbl USING S_TMP.T tmp '' @
           ''ON (target_tbl."ID" = tmp."ID") '' @
           ''WHEN MATCHED THEN UPDATE SET target_tbl."UPDATE_TIMESTAMP" = tmp."UPDATE_TIMESTAMP", target_tbl."V" = tmp."V"'' @
           '' WHEN NOT MATCHED THEN INSERT ("INSERT_TIMESTAMP", "UPDATE_TIMESTAMP", "ID", "V")'' @
           '' VALUES (tmp."INSERT_TIMESTAMP", tmp."UPDATE_TIMESTAMP", tmp."ID", tmp."V");'')\<close>
  by (simp add: frame0_def mtt_statement_def mtt_merge_query_def str_format_def get_field_def isdecimal_def
      str_strip_def isspace_def)

lemma str_format_head_any:
  "str_format (''MERGE INTO {schema}.{tbl} target_tbl USING {schema_tmp}.{tbl_tmp} tmp '' @ b)
     (map_of [(''schema'', s), (''tbl'', t), (''schema_tmp'', ts), (''tbl_tmp'', tt)])
   = (case format_from (map_of [(''schema'', s), (''tbl'', t), (''schema_tmp'', ts), (''tbl_tmp'', tt)]) None b of
        Returns r \<Rightarrow> Returns (merge_head s t (ts, tt) @ r)
      | Raises e \<Rightarrow> Raises e
      | Unmodelled \<Rightarrow> Unmodelled)"
  by (cases "format_from (map_of [(''schema'', s), (''tbl'', t), (''schema_tmp'', ts), (''tbl_tmp'', tt)]) None b")
     (simp_all add: str_format_def get_field_def isdecimal_def merge_head_def)

lemma mtt_statement_head:
  assumes "mtt_statement df pk s t ts tt = Returns sql"
  shows "take (length (merge_head s t (staging_location s t ts tt))) sql
         = merge_head s t (staging_location s t ts tt)"
  using assms
  unfolding mtt_statement_def Let_def mtt_merge_query_text str_format_head_any staging_location_def
  by (auto split: result.splits)

lemma pmq_mtt_statement:
  assumes "map str_strip (columns fetched) = map str_strip (columns df)"
  shows "pmq_statement fetched pk s t ts tt = mtt_statement df pk s t ts tt"
  unfolding mtt_statement_def pmq_statement_def mtt_merge_query_text pmq_merge_query_text
    other_columns_def assms ..

lemma count_frame_statement:
  \<open>mtt_statement \<lparr>columns = ['' COUNT_ROWS''], rows = [[5 :: nat]]\<rparr> ''ID'' ''S'' ''T'' None None
    = Returns (''MERGE INTO S.T target_tbl USING S_TMP.T tmp '' @
           ''ON (target_tbl."ID" = tmp."ID") '' @
           ''WHEN MATCHED THEN UPDATE SET target_tbl."UPDATE_TIMESTAMP" = tmp."UPDATE_TIMESTAMP", target_tbl."COUNT_ROWS" = tmp."COUNT_ROWS"'' @
           '' WHEN NOT MATCHED THEN INSERT ("INSERT_TIMESTAMP", "UPDATE_TIMESTAMP", "ID", "COUNT_ROWS")'' @
           '' VALUES (tmp."INSERT_TIMESTAMP", tmp."UPDATE_TIMESTAMP", tmp."ID", tmp."COUNT_ROWS");'')\<close>
  by (simp add: mtt_statement_def mtt_merge_query_def str_format_def get_field_def isdecimal_def
      str_strip_def isspace_def)

lemma mtt_statement_text_names:
  assumes "list_all brace_free (pk_names pk)" and "list_all brace_free (columns df)"
  shows "mtt_statement df pk s t ts tt =
     Returns (merge_head s t (staging_location s t ts tt) @ on_clause (pk_names pk) @
          update_clause (other_columns df pk) @ insert_clause (pk_names pk) (other_columns df pk))"
  unfolding mtt_statement_def Let_def mtt_merge_query_text staging_location_def
  using str_format_head [OF brace_free_clauses [OF assms(1) brace_free_other_columns [OF assms(2)]]]
  by simp

lemma all_empty_replicate: "list_all (\<lambda>n. n = []) xs \<Longrightarrow> xs = replicate (length xs) []"
  by (induction xs) auto

lemma empty_pk_statement:
  \<open>mtt_statement frame0 [] ''S'' ''T'' None None
    = Returns (''MERGE INTO S.T target_tbl USING S_TMP.T tmp '' @
           ''ON (target_tbl."" = tmp."") '' @
           ''WHEN MATCHED THEN UPDATE SET target_tbl."UPDATE_TIMESTAMP" = tmp."UPDATE_TIMESTAMP", target_tbl."ID" = tmp."ID", target_tbl."V" = tmp."V"'' @
           '' WHEN NOT MATCHED THEN INSERT ("INSERT_TIMESTAMP", "UPDATE_TIMESTAMP", "", "ID", "V")'' @
           '' VALUES (tmp."INSERT_TIMESTAMP", tmp."UPDATE_TIMESTAMP", tmp."", tmp."ID", tmp."V");'')\<close>
  by (simp add: frame0_def mtt_statement_def mtt_merge_query_def str_format_def get_field_def isdecimal_def
      str_strip_def isspace_def)


lemma pmq_statement_head:
  assumes "pmq_statement df pk s t ts tt = Returns sql"
  shows "take (length (merge_head s t (staging_location s t ts tt))) sql
         = merge_head s t (staging_location s t ts tt)"
  using assms
  unfolding pmq_statement_def Let_def pmq_merge_query_text str_format_head_any staging_location_def
  by (auto split: result.splits)

section \<open>Text read back, and the runs of the examples\<close>






lemma frame2_statement:
  \<open>mtt_statement frame2 ''{tbl}'' ''S'' ''T'' None None
    = Returns (''MERGE INTO S.T target_tbl USING S_TMP.T tmp '' @
           ''ON (target_tbl."T" = tmp."T") '' @
           ''WHEN MATCHED THEN UPDATE SET target_tbl."UPDATE_TIMESTAMP" = tmp."UPDATE_TIMESTAMP", target_tbl."PRICE" = tmp."PRICE"'' @
           '' WHEN NOT MATCHED THEN INSERT ("INSERT_TIMESTAMP", "UPDATE_TIMESTAMP", "T", "PRICE")'' @
           '' VALUES (tmp."INSERT_TIMESTAMP", tmp."UPDATE_TIMESTAMP", tmp."T", tmp."PRICE");'')\<close>
  by (simp add: frame2_def mtt_statement_def mtt_merge_query_def str_format_def get_field_def isdecimal_def
      str_strip_def isspace_def)

lemma frame1_statement:
  \<open>mtt_statement frame1 ''ID'' ''S'' ''T'' None None
    = Returns (''MERGE INTO S.T target_tbl USING S_TMP.T tmp '' @
           ''ON (target_tbl."ID" = tmp."ID") '' @
           ''WHEN MATCHED THEN UPDATE SET target_tbl."UPDATE_TIMESTAMP" = tmp."UPDATE_TIMESTAMP", target_tbl."A" = tmp."A", target_tbl."B" = tmp."B"'' @
           '' WHEN NOT MATCHED THEN INSERT ("INSERT_TIMESTAMP", "UPDATE_TIMESTAMP", "ID", "A", "B")'' @
           '' VALUES (tmp."INSERT_TIMESTAMP", tmp."UPDATE_TIMESTAMP", tmp."ID", tmp."A", tmp."B");'')\<close>
  by (simp add: frame1_def mtt_statement_def mtt_merge_query_def str_format_def get_field_def
      isdecimal_def str_strip_def isspace_def)

lemma frame1_statement_raises:
  \<open>mtt_statement frame1 ''{'' ''S'' ''T'' None None = Raises ValueError\<close>
  by (simp add: frame1_def mtt_statement_def mtt_merge_query_def str_format_def get_field_def
      isdecimal_def str_strip_def isspace_def)

lemma frame0_statement_override:
  \<open>mtt_statement frame0 ''ID'' ''S'' ''T'' (Some ''STG'') (Some ''STG_T'')
    = Returns (''MERGE INTO S.T target_tbl USING STG.STG_T tmp '' @
           ''ON (target_tbl."ID" = tmp."ID") '' @
           ''WHEN MATCHED THEN UPDATE SET target_tbl."UPDATE_TIMESTAMP" = tmp."UPDATE_TIMESTAMP", target_tbl."V" = tmp."V"'' @
           '' WHEN NOT MATCHED THEN INSERT ("INSERT_TIMESTAMP", "UPDATE_TIMESTAMP", "ID", "V")'' @
           '' VALUES (tmp."INSERT_TIMESTAMP", tmp."UPDATE_TIMESTAMP", tmp."ID", tmp."V");'')\<close>
  by (simp add: frame0_def mtt_statement_def mtt_merge_query_def str_format_def get_field_def isdecimal_def
      str_strip_def isspace_def)

lemma frame0_run_override:
  \<open>calls (snd (snd (merge_tmp_into_target_tbl conn_ok frame0 ''ID'' ''S'' ''T'' (Some ''STG'') (Some ''STG_T'') world0)))
    = [Execute ''TRUNCATE TABLE STG.STG_T'',
       Import_from_pandas frame0 ''STG'' ''STG_T'',
       Execute (''MERGE INTO S.T target_tbl USING STG.STG_T tmp '' @
           ''ON (target_tbl."ID" = tmp."ID") '' @
           ''WHEN MATCHED THEN UPDATE SET target_tbl."UPDATE_TIMESTAMP" = tmp."UPDATE_TIMESTAMP", target_tbl."V" = tmp."V"'' @
           '' WHEN NOT MATCHED THEN INSERT ("INSERT_TIMESTAMP", "UPDATE_TIMESTAMP", "ID", "V")'' @
           '' VALUES (tmp."INSERT_TIMESTAMP", tmp."UPDATE_TIMESTAMP", tmp."ID", tmp."V");''),
       Export_to_pandas (''SELECT COUNT(*) AS COUNT_ROWS FROM S.T '' @
           ''\<newline>                                    WHERE TO_DATE(UPDATE_TIMESTAMP) = CURRENT_DATE;'')]\<close>
  unfolding merge_run Let_def frame0_statement_override
  by (simp add: conn_ok_def world0_def staging_location_def count_rows_0_def)

lemma staged1_statement_override:
  \<open>pmq_statement staged1 ''ID'' ''S'' ''T'' (Some ''STG'') (Some ''STG_T'')
    = Returns (''MERGE INTO S.T target_tbl USING STG.STG_T tmp '' @
           ''ON (target_tbl."ID" = tmp."ID") '' @
           ''WHEN MATCHED THEN UPDATE SET target_tbl."UPDATE_TIMESTAMP" = tmp."UPDATE_TIMESTAMP", target_tbl."A" = tmp."A", target_tbl."B" = tmp."B"'' @
           '' WHEN NOT MATCHED THEN INSERT ("INSERT_TIMESTAMP", "UPDATE_TIMESTAMP", "ID", "A", "B")'' @
           '' VALUES (tmp."INSERT_TIMESTAMP", tmp."UPDATE_TIMESTAMP", tmp."ID", tmp."A", tmp."B");'')\<close>
  by (simp add: staged1_def pmq_statement_def pmq_merge_query_def str_format_def get_field_def isdecimal_def
      str_strip_def isspace_def)

lemma staged1_print_override:
  \<open>printed (snd (print_merge_query conn_staging ''ID'' ''S'' ''T'' (Some ''STG'') (Some ''STG_T'') world0))
    = printed world0 @
      [''MERGE INTO S.T target_tbl USING STG.STG_T tmp '' @
           ''ON (target_tbl."ID" = tmp."ID") '' @
           ''WHEN MATCHED THEN UPDATE SET target_tbl."UPDATE_TIMESTAMP" = tmp."UPDATE_TIMESTAMP", target_tbl."A" = tmp."A", target_tbl."B" = tmp."B"'' @
           '' WHEN NOT MATCHED THEN INSERT ("INSERT_TIMESTAMP", "UPDATE_TIMESTAMP", "ID", "A", "B")'' @
           '' VALUES (tmp."INSERT_TIMESTAMP", tmp."UPDATE_TIMESTAMP", tmp."ID", tmp."A", tmp."B");'']\<close>
proof -
  have e: \<open>export_to_pandas conn_staging
        (calls world0 @ [Load_dotenv ''.env'', Connect ''DWHEXA_USER'' ''DWHEXA_PASSWORD'' ''DWHEXA_HOST''])
        (''SELECT * FROM '' @ fst (staging_location ''S'' ''T'' (Some ''STG'') (Some ''STG_T'')) @ ''.'' @
         snd (staging_location ''S'' ''T'' (Some ''STG'') (Some ''STG_T''))) = Inr staged1\<close>
    by (simp add: conn_staging_def staging_location_def)
  have c: \<open>connect conn_staging (calls world0 @ [Load_dotenv ''.env''])
             ''DWHEXA_USER'' ''DWHEXA_PASSWORD'' ''DWHEXA_HOST'' = None\<close>
    by (simp add: conn_staging_def)
  show ?thesis
    unfolding print_run Let_def c e by (simp add: staged1_statement_override world0_def)
qed

section \<open>The claims\<close>

text \<open>
  C1, at an input where the code departs from it. The primary-key string \<open>{tbl}\<close> is not
  empty and splits into one stripped name, \<open>{tbl}\<close>, so C1 asks for the single conjunct
  \<open>target_tbl."{tbl}" = tmp."{tbl}"\<close>. The code puts the names into the text that it
  then hands to \<open>format\<close> (line 200), which reads the name as a replacement field: with
  the target table \<open>T\<close> the call returns, and the statement it has executed has the
  conjunct \<open>target_tbl."T" = tmp."T"\<close>, and the column \<open>T\<close> in its insert clause.
  \<open>print_merge_query\<close> formats the same text in the same way (line 389).
\<close>

theorem on_clause_braces_failing_input:
  \<open>map str_strip (str_split CHR '','' ''{tbl}'') = [''{tbl}'']
   \<and> fst (merge_tmp_into_target_tbl conn_ok frame2 ''{tbl}'' ''S'' ''T'' None None world0) = Returns ()
   \<and> calls (snd (snd (merge_tmp_into_target_tbl conn_ok frame2 ''{tbl}'' ''S'' ''T'' None None world0)))
       = [Execute ''TRUNCATE TABLE S_TMP.T'',
          Import_from_pandas frame2 ''S_TMP'' ''T'',
          Execute (''MERGE INTO S.T target_tbl USING S_TMP.T tmp '' @
             ''ON (target_tbl."T" = tmp."T") '' @
             ''WHEN MATCHED THEN UPDATE SET target_tbl."UPDATE_TIMESTAMP" = tmp."UPDATE_TIMESTAMP", target_tbl."PRICE" = tmp."PRICE"'' @
             '' WHEN NOT MATCHED THEN INSERT ("INSERT_TIMESTAMP", "UPDATE_TIMESTAMP", "T", "PRICE")'' @
             '' VALUES (tmp."INSERT_TIMESTAMP", tmp."UPDATE_TIMESTAMP", tmp."T", tmp."PRICE");''),
          Export_to_pandas (''SELECT COUNT(*) AS COUNT_ROWS FROM S.T '' @
             ''\<newline>                                    WHERE TO_DATE(UPDATE_TIMESTAMP) = CURRENT_DATE;'')]
   \<and> pmq_statement frame2 ''{tbl}'' ''S'' ''T'' None None
       = mtt_statement frame2 ''{tbl}'' ''S'' ''T'' None None\<close>
  unfolding merge_run Let_def frame2_statement pmq_mtt_statement [OF refl]
  by (simp add: conn_ok_def world0_def staging_location_def count_rows_0_def str_strip_def isspace_def)

text \<open>
  C2, as amended. \<open>merge_tmp_into_target_tbl\<close> validates nothing. For a primary-key
  string whose pieces are all empty after stripping (there are \<open>k\<close> pieces, at least
  one) and a dataframe without braces in its labels, once the truncate and the bulk load
  have returned, the third call executes a merge statement whose \<open>ON\<close> clause has \<open>k\<close>
  conjuncts \<open>target_tbl."" = tmp.""\<close>.
\<close>

theorem empty_primary_key_accepted:
  fixes conn :: "'v connection" and dataframe :: "'v dataframe"
    and pk_columns exasol_schema exasol_table :: string and temp_schema temp_tbl :: "string option"
    and w :: "'v world"
  defines "loc \<equiv> staging_location exasol_schema exasol_table temp_schema temp_tbl"
  defines "k \<equiv> length (str_split CHR '','' pk_columns)"
  defines \<open>sql \<equiv> merge_head exasol_schema exasol_table loc @
                 ''ON ('' @ str_join '' AND '' (replicate k ''target_tbl."" = tmp.""'') @ '') '' @
                 update_clause (other_columns dataframe pk_columns) @
                 insert_clause (replicate k []) (other_columns dataframe pk_columns)\<close>
  assumes empty: "list_all (\<lambda>n. n = []) (map str_strip (str_split CHR '','' pk_columns))"
    and cols: "list_all brace_free (columns dataframe)"
    and trunc: "execute conn (calls w) (''TRUNCATE TABLE '' @ fst loc @ ''.'' @ snd loc) = None"
    and load: "import_from_pandas conn (calls w @ [Execute (''TRUNCATE TABLE '' @ fst loc @ ''.'' @ snd loc)])
                 dataframe loc = None"
  shows "mtt_statement dataframe pk_columns exasol_schema exasol_table temp_schema temp_tbl = Returns sql
       \<and> take 3 (drop (length (calls w))
            (calls (snd (snd (merge_tmp_into_target_tbl conn dataframe pk_columns exasol_schema
                                exasol_table temp_schema temp_tbl w)))))
          = [Execute (''TRUNCATE TABLE '' @ fst loc @ ''.'' @ snd loc),
             Import_from_pandas dataframe (fst loc) (snd loc), Execute sql]
       \<and> 0 < k"
proof -
  have names: "pk_names pk_columns = replicate k []"
    using all_empty_replicate [OF empty] by (simp add: pk_names_def k_def)
  have bf: "list_all brace_free (pk_names pk_columns)"
    unfolding names by (simp add: list_all_iff brace_free_def)
  have st: "mtt_statement dataframe pk_columns exasol_schema exasol_table temp_schema temp_tbl = Returns sql"
    unfolding mtt_statement_text_names [OF bf cols] names sql_def loc_def
    by (simp add: on_clause_def eq_pair_def)
  have run: "take 3 (drop (length (calls w))
            (calls (snd (snd (merge_tmp_into_target_tbl conn dataframe pk_columns exasol_schema
                                exasol_table temp_schema temp_tbl w)))))
          = [Execute (''TRUNCATE TABLE '' @ fst loc @ ''.'' @ snd loc),
             Import_from_pandas dataframe (fst loc) (snd loc), Execute sql]"
    using trunc load unfolding merge_run Let_def st loc_def
    by (simp split: option.split sum.split result.split)
  have "0 < k" using str_split_not_Nil [of "CHR '',''" pk_columns] by (simp add: k_def)
  with st run show ?thesis by simp
qed

theorem empty_primary_key_accepted_witness:
  \<open>list_all (\<lambda>n. n = []) (map str_strip (str_split CHR '','' '' , ''))
   \<and> list_all brace_free (columns frame0)
   \<and> execute conn_ok (calls world0) ''TRUNCATE TABLE S_TMP.T'' = None
   \<and> import_from_pandas conn_ok (calls world0 @ [Execute ''TRUNCATE TABLE S_TMP.T'']) frame0 (''S_TMP'', ''T'') = None
   \<and> take 3 (calls (snd (snd (merge_tmp_into_target_tbl conn_ok frame0 '' , '' ''S'' ''T'' None None world0))))
       = [Execute ''TRUNCATE TABLE S_TMP.T'',
          Import_from_pandas frame0 ''S_TMP'' ''T'',
          Execute (''MERGE INTO S.T target_tbl USING S_TMP.T tmp '' @
             ''ON (target_tbl."" = tmp."" AND target_tbl."" = tmp."") '' @
             ''WHEN MATCHED THEN UPDATE SET target_tbl."UPDATE_TIMESTAMP" = tmp."UPDATE_TIMESTAMP", target_tbl."ID" = tmp."ID", target_tbl."V" = tmp."V"'' @
             '' WHEN NOT MATCHED THEN INSERT ("INSERT_TIMESTAMP", "UPDATE_TIMESTAMP", "", "", "ID", "V")'' @
             '' VALUES (tmp."INSERT_TIMESTAMP", tmp."UPDATE_TIMESTAMP", tmp."", tmp."", tmp."ID", tmp."V");'')]\<close>
  using empty_primary_key_accepted [where conn = conn_ok and w = world0 and dataframe = frame0
      and pk_columns = "'' , ''" and exasol_schema = "''S''" and exasol_table = "''T''"
      and temp_schema = None and temp_tbl = None]
  by (simp add: conn_ok_def world0_def staging_location_def frame0_def brace_free_def merge_head_def
      update_clause_def insert_clause_def other_columns_def pk_names_def eq_pair_def quoted_def
      tmp_col_def str_strip_def isspace_def)

theorem empty_primary_key_counterexample:
  \<open>map str_strip (str_split CHR '','' []) = [[]]
   \<and> fst (merge_tmp_into_target_tbl conn_ok frame0 [] ''S'' ''T'' None None world0) = Returns ()
   \<and> calls (snd (snd (merge_tmp_into_target_tbl conn_ok frame0 [] ''S'' ''T'' None None world0)))
       = [Execute ''TRUNCATE TABLE S_TMP.T'',
          Import_from_pandas frame0 ''S_TMP'' ''T'',
          Execute (''MERGE INTO S.T target_tbl USING S_TMP.T tmp '' @
             ''ON (target_tbl."" = tmp."") '' @
             ''WHEN MATCHED THEN UPDATE SET target_tbl."UPDATE_TIMESTAMP" = tmp."UPDATE_TIMESTAMP", target_tbl."ID" = tmp."ID", target_tbl."V" = tmp."V"'' @
             '' WHEN NOT MATCHED THEN INSERT ("INSERT_TIMESTAMP", "UPDATE_TIMESTAMP", "", "ID", "V")'' @
             '' VALUES (tmp."INSERT_TIMESTAMP", tmp."UPDATE_TIMESTAMP", tmp."", tmp."ID", tmp."V");''),
          Export_to_pandas (''SELECT COUNT(*) AS COUNT_ROWS FROM S.T '' @
             ''\<newline>                                    WHERE TO_DATE(UPDATE_TIMESTAMP) = CURRENT_DATE;'')]\<close>
  unfolding merge_run Let_def empty_pk_statement
  by (simp add: conn_ok_def world0_def staging_location_def count_rows_0_def str_strip_def)




text \<open>
  C4, as amended. When neither the primary-key string nor a column label of the
  dataframe contains a brace, the insert clause lists \<open>INSERT_TIMESTAMP\<close>,
  \<open>UPDATE_TIMESTAMP\<close>, the primary-key names in the order of the string and the other
  columns in the order of the dataframe, each in double quotes, and its values are the
  same names in the same order, each as \<open>tmp."name"\<close>. When moreover no name contains a
  double quote, parsing the column list gives the list of names back.
\<close>

theorem insert_clause_columns:
  assumes "brace_free pk_columns" and "list_all brace_free (columns dataframe)"
  shows \<open>mtt_statement dataframe pk_columns exasol_schema exasol_table temp_schema temp_tbl =
           Returns (merge_head exasol_schema exasol_table
                  (staging_location exasol_schema exasol_table temp_schema temp_tbl) @
                on_clause (pk_names pk_columns) @
                update_clause (other_columns dataframe pk_columns) @
                '' WHEN NOT MATCHED THEN INSERT ('' @
                str_join '', ''
                  (map (\<lambda>col. ''"'' @ col @ ''"'')
                     (''INSERT_TIMESTAMP'' # ''UPDATE_TIMESTAMP'' #
                      map str_strip (str_split CHR '','' pk_columns) @ other_columns dataframe pk_columns)) @
                '') VALUES ('' @
                str_join '', ''
                  (map (\<lambda>col. ''tmp."'' @ col @ ''"'')
                     (''INSERT_TIMESTAMP'' # ''UPDATE_TIMESTAMP'' #
                      map str_strip (str_split CHR '','' pk_columns) @ other_columns dataframe pk_columns)) @
                '');'')
         \<and> (quote_free pk_columns \<and> list_all quote_free (columns dataframe) \<longrightarrow>
              parse_column_list
                (str_join '', ''
                  (map (\<lambda>col. ''"'' @ col @ ''"'')
                     (''INSERT_TIMESTAMP'' # ''UPDATE_TIMESTAMP'' #
                      map str_strip (str_split CHR '','' pk_columns) @ other_columns dataframe pk_columns)))
              = Some (''INSERT_TIMESTAMP'' # ''UPDATE_TIMESTAMP'' #
                      map str_strip (str_split CHR '','' pk_columns) @ other_columns dataframe pk_columns))\<close>
proof -
  have q: \<open>(\<lambda>col. ''"'' @ col @ ''"'') = quoted\<close>
    by (rule ext) (simp add: quoted_def)
  have t: \<open>(\<lambda>col. ''tmp."'' @ col @ ''"'') = tmp_col\<close>
    by (rule ext) (simp add: tmp_col_def)
  have rt: "parse_column_list
              (str_join '', '' (map quoted (''INSERT_TIMESTAMP'' # ''UPDATE_TIMESTAMP'' #
                  pk_names pk_columns @ other_columns dataframe pk_columns)))
            = Some (''INSERT_TIMESTAMP'' # ''UPDATE_TIMESTAMP'' #
                  pk_names pk_columns @ other_columns dataframe pk_columns)"
    if "quote_free pk_columns" and "list_all quote_free (columns dataframe)"
  proof (rule parse_column_list_join)
    show "list_all quote_free (''INSERT_TIMESTAMP'' # ''UPDATE_TIMESTAMP'' #
                  pk_names pk_columns @ other_columns dataframe pk_columns)"
      using quote_free_pk_names [OF that(1)] quote_free_other_columns [OF that(2), of pk_columns]
      by (simp add: quote_free_def)
  qed simp
  show ?thesis
    unfolding q t
    using mtt_statement_text [OF assms] rt
    by (simp add: insert_clause_def pk_names_def)
qed

theorem insert_clause_columns_witness:
  \<open>brace_free ''BRAND, CATEGORY''
   \<and> list_all brace_free (columns \<lparr>columns = [''BRAND'', ''CATEGORY'', ''PRICE'', ''INSERT_TIMESTAMP'', ''UPDATE_TIMESTAMP''], rows = ([] :: nat list list)\<rparr>)
   \<and> quote_free ''BRAND, CATEGORY''
   \<and> list_all quote_free (columns \<lparr>columns = [''BRAND'', ''CATEGORY'', ''PRICE'', ''INSERT_TIMESTAMP'', ''UPDATE_TIMESTAMP''], rows = ([] :: nat list list)\<rparr>)
   \<and> mtt_statement \<lparr>columns = [''BRAND'', ''CATEGORY'', ''PRICE'', ''INSERT_TIMESTAMP'', ''UPDATE_TIMESTAMP''], rows = ([] :: nat list list)\<rparr>
        ''BRAND, CATEGORY'' ''S'' ''T'' None (Some ''T_STG'')
      = Returns (''MERGE INTO S.T target_tbl USING S_TMP.T_STG tmp '' @
             ''ON (target_tbl."BRAND" = tmp."BRAND" AND target_tbl."CATEGORY" = tmp."CATEGORY") '' @
             ''WHEN MATCHED THEN UPDATE SET target_tbl."UPDATE_TIMESTAMP" = tmp."UPDATE_TIMESTAMP", target_tbl."PRICE" = tmp."PRICE"'' @
             '' WHEN NOT MATCHED THEN INSERT ("INSERT_TIMESTAMP", "UPDATE_TIMESTAMP", "BRAND", "CATEGORY", "PRICE")'' @
             '' VALUES (tmp."INSERT_TIMESTAMP", tmp."UPDATE_TIMESTAMP", tmp."BRAND", tmp."CATEGORY", tmp."PRICE");'')
   \<and> parse_column_list ''"INSERT_TIMESTAMP", "UPDATE_TIMESTAMP", "BRAND", "CATEGORY", "PRICE"''
      = Some [''INSERT_TIMESTAMP'', ''UPDATE_TIMESTAMP'', ''BRAND'', ''CATEGORY'', ''PRICE'']\<close>
  using insert_clause_columns [of "''BRAND, CATEGORY''"
      "\<lparr>columns = [''BRAND'', ''CATEGORY'', ''PRICE'', ''INSERT_TIMESTAMP'', ''UPDATE_TIMESTAMP''], rows = ([] :: nat list list)\<rparr>"
      "''S''" "''T''" None "Some ''T_STG''"]
  by (simp add: brace_free_def quote_free_def merge_head_def staging_location_def on_clause_def
      update_clause_def other_columns_def pk_names_def eq_pair_def str_strip_def isspace_def)

theorem insert_clause_counterexample:
  \<open>mtt_statement \<lparr>columns = [''{schema}''], rows = ([] :: nat list list)\<rparr> ''K'' ''S'' ''T'' None None
      = Returns (''MERGE INTO S.T target_tbl USING S_TMP.T tmp '' @
             ''ON (target_tbl."K" = tmp."K") '' @
             ''WHEN MATCHED THEN UPDATE SET target_tbl."UPDATE_TIMESTAMP" = tmp."UPDATE_TIMESTAMP", target_tbl."S" = tmp."S"'' @
             '' WHEN NOT MATCHED THEN INSERT ("INSERT_TIMESTAMP", "UPDATE_TIMESTAMP", "K", "S")'' @
             '' VALUES (tmp."INSERT_TIMESTAMP", tmp."UPDATE_TIMESTAMP", tmp."K", tmp."S");'')
   \<and> mtt_statement \<lparr>columns = [''a", "b''], rows = ([] :: nat list list)\<rparr> ''K'' ''S'' ''T'' None None
      = Returns (''MERGE INTO S.T target_tbl USING S_TMP.T tmp '' @
             ''ON (target_tbl."K" = tmp."K") '' @
             ''WHEN MATCHED THEN UPDATE SET target_tbl."UPDATE_TIMESTAMP" = tmp."UPDATE_TIMESTAMP", target_tbl."a", "b" = tmp."a", "b"'' @
             '' WHEN NOT MATCHED THEN INSERT ("INSERT_TIMESTAMP", "UPDATE_TIMESTAMP", "K", "a", "b")'' @
             '' VALUES (tmp."INSERT_TIMESTAMP", tmp."UPDATE_TIMESTAMP", tmp."K", tmp."a", "b");'')
   \<and> mtt_statement \<lparr>columns = [''a'', ''b''], rows = ([] :: nat list list)\<rparr> ''K'' ''S'' ''T'' None None
      = Returns (''MERGE INTO S.T target_tbl USING S_TMP.T tmp '' @
             ''ON (target_tbl."K" = tmp."K") '' @
             ''WHEN MATCHED THEN UPDATE SET target_tbl."UPDATE_TIMESTAMP" = tmp."UPDATE_TIMESTAMP", target_tbl."a" = tmp."a", target_tbl."b" = tmp."b"'' @
             '' WHEN NOT MATCHED THEN INSERT ("INSERT_TIMESTAMP", "UPDATE_TIMESTAMP", "K", "a", "b")'' @
             '' VALUES (tmp."INSERT_TIMESTAMP", tmp."UPDATE_TIMESTAMP", tmp."K", tmp."a", tmp."b");'')\<close>
  by (simp add: mtt_statement_def mtt_merge_query_def str_format_def get_field_def isdecimal_def
      str_strip_def isspace_def)



text \<open>
  C6, as amended. When the dataframe that \<open>print_merge_query\<close> fetches from the staging
  table has the same stripped column labels, in the same order, as the dataframe passed
  to \<open>merge_tmp_into_target_tbl\<close>, then for the same primary-key string, target and
  staging overrides both functions hand the same text and the same four names to
  \<open>format\<close>; so the text that \<open>print_merge_query\<close> prints is the text that
  \<open>merge_tmp_into_target_tbl\<close> executes as its third call, and when \<open>format\<close> raises for
  one it raises the same for the other: then nothing is printed, and nothing is executed
  after the bulk load. \<open>print_merge_query\<close> loads the dotenv file, connects and fetches
  the staging table, and calls nothing else: no truncate, no bulk load, no execution, no
  count query.
\<close>

theorem print_matches_merge:
  fixes conn :: "'v connection" and dataframe fetched :: "'v dataframe"
    and pk_columns exasol_schema exasol_table :: string and temp_schema temp_tbl :: "string option"
    and w w' :: "'v world"
  defines "loc \<equiv> staging_location exasol_schema exasol_table temp_schema temp_tbl"
  defines "c0 \<equiv> Load_dotenv ''.env''"
  defines "c1 \<equiv> Connect ''DWHEXA_USER'' ''DWHEXA_PASSWORD'' ''DWHEXA_HOST''"
  defines "prun \<equiv> print_merge_query conn pk_columns exasol_schema exasol_table temp_schema temp_tbl w"
  defines "mrun \<equiv> merge_tmp_into_target_tbl conn dataframe pk_columns exasol_schema exasol_table
                     temp_schema temp_tbl w'"
  assumes same: "map str_strip (columns fetched) = map str_strip (columns dataframe)"
  shows "snd (pmq_merge_query fetched pk_columns) = snd (mtt_merge_query dataframe pk_columns)
       \<and> pmq_statement fetched pk_columns exasol_schema exasol_table temp_schema temp_tbl
         = mtt_statement dataframe pk_columns exasol_schema exasol_table temp_schema temp_tbl
       \<and> (connect conn (calls w @ [c0]) ''DWHEXA_USER'' ''DWHEXA_PASSWORD'' ''DWHEXA_HOST'' = None
          \<and> export_to_pandas conn (calls w @ [c0, c1]) (''SELECT * FROM '' @ fst loc @ ''.'' @ snd loc) = Inr fetched
          \<and> mtt_statement dataframe pk_columns exasol_schema exasol_table temp_schema temp_tbl = Returns sql
            \<longrightarrow> fst prun = Returns () \<and> printed (snd prun) = printed w @ [sql])
       \<and> (connect conn (calls w @ [c0]) ''DWHEXA_USER'' ''DWHEXA_PASSWORD'' ''DWHEXA_HOST'' = None
          \<and> export_to_pandas conn (calls w @ [c0, c1]) (''SELECT * FROM '' @ fst loc @ ''.'' @ snd loc) = Inr fetched
          \<and> mtt_statement dataframe pk_columns exasol_schema exasol_table temp_schema temp_tbl = Raises e
            \<longrightarrow> fst prun = Raises e \<and> printed (snd prun) = printed w)
       \<and> (execute conn (calls w') (''TRUNCATE TABLE '' @ fst loc @ ''.'' @ snd loc) = None
          \<and> import_from_pandas conn (calls w' @ [Execute (''TRUNCATE TABLE '' @ fst loc @ ''.'' @ snd loc)])
               dataframe loc = None
          \<and> mtt_statement dataframe pk_columns exasol_schema exasol_table temp_schema temp_tbl = Returns sql
            \<longrightarrow> take 3 (drop (length (calls w')) (calls (snd (snd mrun))))
                = [Execute (''TRUNCATE TABLE '' @ fst loc @ ''.'' @ snd loc),
                   Import_from_pandas dataframe (fst loc) (snd loc), Execute sql])
       \<and> (execute conn (calls w') (''TRUNCATE TABLE '' @ fst loc @ ''.'' @ snd loc) = None
          \<and> import_from_pandas conn (calls w' @ [Execute (''TRUNCATE TABLE '' @ fst loc @ ''.'' @ snd loc)])
               dataframe loc = None
          \<and> mtt_statement dataframe pk_columns exasol_schema exasol_table temp_schema temp_tbl = Raises e
            \<longrightarrow> fst mrun = Raises e
                \<and> drop (length (calls w')) (calls (snd (snd mrun)))
                  = [Execute (''TRUNCATE TABLE '' @ fst loc @ ''.'' @ snd loc),
                     Import_from_pandas dataframe (fst loc) (snd loc)])
       \<and> calls (snd prun) =
           calls w @ [c0, c1] @
           (if connect conn (calls w @ [c0]) ''DWHEXA_USER'' ''DWHEXA_PASSWORD'' ''DWHEXA_HOST'' = None
            then [Export_to_pandas (''SELECT * FROM '' @ fst loc @ ''.'' @ snd loc)] else [])"
proof -
  have t: "snd (pmq_merge_query fetched pk_columns) = snd (mtt_merge_query dataframe pk_columns)"
    unfolding mtt_merge_query_text pmq_merge_query_text other_columns_def same ..
  note eq = pmq_mtt_statement [OF same, of pk_columns exasol_schema exasol_table temp_schema temp_tbl]
  have p1: "fst prun = Returns () \<and> printed (snd prun) = printed w @ [sql]"
    if "connect conn (calls w @ [c0]) ''DWHEXA_USER'' ''DWHEXA_PASSWORD'' ''DWHEXA_HOST'' = None"
      and "export_to_pandas conn (calls w @ [c0, c1]) (''SELECT * FROM '' @ fst loc @ ''.'' @ snd loc) = Inr fetched"
      and "mtt_statement dataframe pk_columns exasol_schema exasol_table temp_schema temp_tbl = Returns sql"
    using that eq unfolding prun_def print_run Let_def loc_def c0_def c1_def by simp
  have p2: "fst prun = Raises e \<and> printed (snd prun) = printed w"
    if "connect conn (calls w @ [c0]) ''DWHEXA_USER'' ''DWHEXA_PASSWORD'' ''DWHEXA_HOST'' = None"
      and "export_to_pandas conn (calls w @ [c0, c1]) (''SELECT * FROM '' @ fst loc @ ''.'' @ snd loc) = Inr fetched"
      and "mtt_statement dataframe pk_columns exasol_schema exasol_table temp_schema temp_tbl = Raises e"
    using that eq unfolding prun_def print_run Let_def loc_def c0_def c1_def by simp
  have m1: "take 3 (drop (length (calls w')) (calls (snd (snd mrun))))
                = [Execute (''TRUNCATE TABLE '' @ fst loc @ ''.'' @ snd loc),
                   Import_from_pandas dataframe (fst loc) (snd loc), Execute sql]"
    if "execute conn (calls w') (''TRUNCATE TABLE '' @ fst loc @ ''.'' @ snd loc) = None"
      and "import_from_pandas conn (calls w' @ [Execute (''TRUNCATE TABLE '' @ fst loc @ ''.'' @ snd loc)])
               dataframe loc = None"
      and "mtt_statement dataframe pk_columns exasol_schema exasol_table temp_schema temp_tbl = Returns sql"
    using that unfolding mrun_def merge_run Let_def loc_def
    by (simp split: option.split sum.split)
  have m2: "fst mrun = Raises e
            \<and> drop (length (calls w')) (calls (snd (snd mrun)))
              = [Execute (''TRUNCATE TABLE '' @ fst loc @ ''.'' @ snd loc),
                 Import_from_pandas dataframe (fst loc) (snd loc)]"
    if "execute conn (calls w') (''TRUNCATE TABLE '' @ fst loc @ ''.'' @ snd loc) = None"
      and "import_from_pandas conn (calls w' @ [Execute (''TRUNCATE TABLE '' @ fst loc @ ''.'' @ snd loc)])
               dataframe loc = None"
      and "mtt_statement dataframe pk_columns exasol_schema exasol_table temp_schema temp_tbl = Raises e"
    using that unfolding mrun_def merge_run Let_def loc_def
    by simp
  have c: "calls (snd prun) =
           calls w @ [c0, c1] @
           (if connect conn (calls w @ [c0]) ''DWHEXA_USER'' ''DWHEXA_PASSWORD'' ''DWHEXA_HOST'' = None
            then [Export_to_pandas (''SELECT * FROM '' @ fst loc @ ''.'' @ snd loc)] else [])"
    unfolding prun_def print_run Let_def loc_def c0_def c1_def
    by (simp split: option.split sum.split result.split)
  from t eq p1 p2 m1 m2 c show ?thesis by blast
qed

theorem print_matches_merge_witness:
  \<open>map str_strip (columns staged1) = map str_strip (columns frame1)
   \<and> columns staged1 = [''A'', ''B'', ''ID''] \<and> columns frame1 = ['' A'', ''B '', ''ID'']
   \<and> connect conn_staging (calls world0 @ [Load_dotenv ''.env'']) ''DWHEXA_USER'' ''DWHEXA_PASSWORD'' ''DWHEXA_HOST'' = None
   \<and> export_to_pandas conn_staging
        (calls world0 @ [Load_dotenv ''.env'', Connect ''DWHEXA_USER'' ''DWHEXA_PASSWORD'' ''DWHEXA_HOST''])
        ''SELECT * FROM S_TMP.T'' = Inr staged1
   \<and> execute conn_staging (calls world0) ''TRUNCATE TABLE S_TMP.T'' = None
   \<and> import_from_pandas conn_staging (calls world0 @ [Execute ''TRUNCATE TABLE S_TMP.T''])
        frame1 (''S_TMP'', ''T'') = None
   \<and> mtt_statement frame1 ''ID'' ''S'' ''T'' None None
       = Returns (''MERGE INTO S.T target_tbl USING S_TMP.T tmp '' @
           ''ON (target_tbl."ID" = tmp."ID") '' @
           ''WHEN MATCHED THEN UPDATE SET target_tbl."UPDATE_TIMESTAMP" = tmp."UPDATE_TIMESTAMP", target_tbl."A" = tmp."A", target_tbl."B" = tmp."B"'' @
           '' WHEN NOT MATCHED THEN INSERT ("INSERT_TIMESTAMP", "UPDATE_TIMESTAMP", "ID", "A", "B")'' @
           '' VALUES (tmp."INSERT_TIMESTAMP", tmp."UPDATE_TIMESTAMP", tmp."ID", tmp."A", tmp."B");'')
   \<and> fst (print_merge_query conn_staging ''ID'' ''S'' ''T'' None None world0) = Returns ()
   \<and> printed (snd (print_merge_query conn_staging ''ID'' ''S'' ''T'' None None world0))
       = [''MERGE INTO S.T target_tbl USING S_TMP.T tmp '' @
           ''ON (target_tbl."ID" = tmp."ID") '' @
           ''WHEN MATCHED THEN UPDATE SET target_tbl."UPDATE_TIMESTAMP" = tmp."UPDATE_TIMESTAMP", target_tbl."A" = tmp."A", target_tbl."B" = tmp."B"'' @
           '' WHEN NOT MATCHED THEN INSERT ("INSERT_TIMESTAMP", "UPDATE_TIMESTAMP", "ID", "A", "B")'' @
           '' VALUES (tmp."INSERT_TIMESTAMP", tmp."UPDATE_TIMESTAMP", tmp."ID", tmp."A", tmp."B");'']
   \<and> take 3 (calls (snd (snd (merge_tmp_into_target_tbl conn_staging frame1 ''ID'' ''S'' ''T'' None None world0))))
       = [Execute ''TRUNCATE TABLE S_TMP.T'',
          Import_from_pandas frame1 ''S_TMP'' ''T'',
          Execute (''MERGE INTO S.T target_tbl USING S_TMP.T tmp '' @
           ''ON (target_tbl."ID" = tmp."ID") '' @
           ''WHEN MATCHED THEN UPDATE SET target_tbl."UPDATE_TIMESTAMP" = tmp."UPDATE_TIMESTAMP", target_tbl."A" = tmp."A", target_tbl."B" = tmp."B"'' @
           '' WHEN NOT MATCHED THEN INSERT ("INSERT_TIMESTAMP", "UPDATE_TIMESTAMP", "ID", "A", "B")'' @
           '' VALUES (tmp."INSERT_TIMESTAMP", tmp."UPDATE_TIMESTAMP", tmp."ID", tmp."A", tmp."B");'')]
   \<and> calls (snd (print_merge_query conn_staging ''ID'' ''S'' ''T'' None None world0))
       = [Load_dotenv ''.env'', Connect ''DWHEXA_USER'' ''DWHEXA_PASSWORD'' ''DWHEXA_HOST'',
          Export_to_pandas ''SELECT * FROM S_TMP.T'']
   \<and> mtt_statement frame1 ''{'' ''S'' ''T'' None None = Raises ValueError
   \<and> fst (print_merge_query conn_staging ''{'' ''S'' ''T'' None None world0) = Raises ValueError
   \<and> printed (snd (print_merge_query conn_staging ''{'' ''S'' ''T'' None None world0)) = []
   \<and> fst (merge_tmp_into_target_tbl conn_staging frame1 ''{'' ''S'' ''T'' None None world0) = Raises ValueError
   \<and> calls (snd (snd (merge_tmp_into_target_tbl conn_staging frame1 ''{'' ''S'' ''T'' None None world0)))
       = [Execute ''TRUNCATE TABLE S_TMP.T'', Import_from_pandas frame1 ''S_TMP'' ''T'']\<close>
proof -
  have same: "map str_strip (columns staged1) = map str_strip (columns frame1)"
    by (simp add: staged1_def frame1_def str_strip_def isspace_def)
  have cols: \<open>columns staged1 = [''A'', ''B'', ''ID''] \<and> columns frame1 = ['' A'', ''B '', ''ID'']\<close>
    by (simp add: staged1_def frame1_def)
  show ?thesis
    using same cols
      print_matches_merge [OF same, where conn = conn_staging and w = world0 and w' = world0
        and pk_columns = "''ID''" and exasol_schema = "''S''" and exasol_table = "''T''"
        and temp_schema = None and temp_tbl = None, unfolded frame1_statement]
      print_matches_merge [OF same, where conn = conn_staging and w = world0 and w' = world0
        and pk_columns = "''{''" and exasol_schema = "''S''" and exasol_table = "''T''"
        and temp_schema = None and temp_tbl = None, unfolded frame1_statement_raises]
      frame1_statement frame1_statement_raises
    by (simp add: conn_staging_def world0_def staging_location_def)
qed

theorem print_order_counterexample:
  \<open>set (map str_strip (columns \<lparr>columns = [''B'', ''A''], rows = ([] :: nat list list)\<rparr>))
     = set (map str_strip (columns \<lparr>columns = [''A'', ''B''], rows = ([] :: nat list list)\<rparr>))
   \<and> pmq_statement \<lparr>columns = [''B'', ''A''], rows = ([] :: nat list list)\<rparr> ''K'' ''S'' ''T'' None None
      = Returns (''MERGE INTO S.T target_tbl USING S_TMP.T tmp '' @
             ''ON (target_tbl."K" = tmp."K") '' @
             ''WHEN MATCHED THEN UPDATE SET target_tbl."UPDATE_TIMESTAMP" = tmp."UPDATE_TIMESTAMP", target_tbl."B" = tmp."B", target_tbl."A" = tmp."A"'' @
             '' WHEN NOT MATCHED THEN INSERT ("INSERT_TIMESTAMP", "UPDATE_TIMESTAMP", "K", "B", "A")'' @
             '' VALUES (tmp."INSERT_TIMESTAMP", tmp."UPDATE_TIMESTAMP", tmp."K", tmp."B", tmp."A");'')
   \<and> mtt_statement \<lparr>columns = [''A'', ''B''], rows = ([] :: nat list list)\<rparr> ''K'' ''S'' ''T'' None None
      = Returns (''MERGE INTO S.T target_tbl USING S_TMP.T tmp '' @
             ''ON (target_tbl."K" = tmp."K") '' @
             ''WHEN MATCHED THEN UPDATE SET target_tbl."UPDATE_TIMESTAMP" = tmp."UPDATE_TIMESTAMP", target_tbl."A" = tmp."A", target_tbl."B" = tmp."B"'' @
             '' WHEN NOT MATCHED THEN INSERT ("INSERT_TIMESTAMP", "UPDATE_TIMESTAMP", "K", "A", "B")'' @
             '' VALUES (tmp."INSERT_TIMESTAMP", tmp."UPDATE_TIMESTAMP", tmp."K", tmp."A", tmp."B");'')
   \<and> pmq_statement \<lparr>columns = [''B'', ''A''], rows = ([] :: nat list list)\<rparr> ''K'' ''S'' ''T'' None None
      \<noteq> mtt_statement \<lparr>columns = [''A'', ''B''], rows = ([] :: nat list list)\<rparr> ''K'' ''S'' ''T'' None None\<close>
  by (simp add: mtt_statement_def mtt_merge_query_def pmq_statement_def pmq_merge_query_def
      str_format_def get_field_def isdecimal_def str_strip_def isspace_def insert_commute)

text \<open>
  C7. When the truncate, the bulk load, the execution of the merge statement or the count
  query raises \<open>e\<close>, \<open>merge_tmp_into_target_tbl\<close> raises \<open>e\<close>, and the calls it has made
  are the calls up to the failing one, each made once: nothing is retried and nothing is
  called after the failure.
\<close>

theorem failure_propagates:
  fixes conn :: "'v connection" and dataframe :: "'v dataframe"
    and pk_columns exasol_schema exasol_table :: string and temp_schema temp_tbl :: "string option"
    and w :: "'v world"
  defines "loc \<equiv> staging_location exasol_schema exasol_table temp_schema temp_tbl"
  defines "c1 \<equiv> Execute (''TRUNCATE TABLE '' @ fst loc @ ''.'' @ snd loc)"
  defines "c2 \<equiv> Import_from_pandas dataframe (fst loc) (snd loc)"
  defines "c4 \<equiv> Export_to_pandas
                  (''SELECT COUNT(*) AS COUNT_ROWS FROM '' @ exasol_schema @ ''.'' @ exasol_table @
                   '' \<newline>                                    WHERE TO_DATE(UPDATE_TIMESTAMP) = CURRENT_DATE;'')"
  defines "run \<equiv> merge_tmp_into_target_tbl conn dataframe pk_columns exasol_schema exasol_table
                    temp_schema temp_tbl w"
  shows "(execute conn (calls w) (''TRUNCATE TABLE '' @ fst loc @ ''.'' @ snd loc) = Some e
            \<longrightarrow> fst run = Raises e \<and> calls (snd (snd run)) = calls w @ [c1])
       \<and> (execute conn (calls w) (''TRUNCATE TABLE '' @ fst loc @ ''.'' @ snd loc) = None
          \<and> import_from_pandas conn (calls w @ [c1]) dataframe loc = Some e
            \<longrightarrow> fst run = Raises e \<and> calls (snd (snd run)) = calls w @ [c1, c2])
       \<and> (execute conn (calls w) (''TRUNCATE TABLE '' @ fst loc @ ''.'' @ snd loc) = None
          \<and> import_from_pandas conn (calls w @ [c1]) dataframe loc = None
          \<and> mtt_statement dataframe pk_columns exasol_schema exasol_table temp_schema temp_tbl = Returns sql
          \<and> execute conn (calls w @ [c1, c2]) sql = Some e
            \<longrightarrow> fst run = Raises e \<and> calls (snd (snd run)) = calls w @ [c1, c2, Execute sql])
       \<and> (execute conn (calls w) (''TRUNCATE TABLE '' @ fst loc @ ''.'' @ snd loc) = None
          \<and> import_from_pandas conn (calls w @ [c1]) dataframe loc = None
          \<and> mtt_statement dataframe pk_columns exasol_schema exasol_table temp_schema temp_tbl = Returns sql
          \<and> execute conn (calls w @ [c1, c2]) sql = None
          \<and> export_to_pandas conn (calls w @ [c1, c2, Execute sql])
               (''SELECT COUNT(*) AS COUNT_ROWS FROM '' @ exasol_schema @ ''.'' @ exasol_table @
                '' \<newline>                                    WHERE TO_DATE(UPDATE_TIMESTAMP) = CURRENT_DATE;'') = Inl e
            \<longrightarrow> fst run = Raises e \<and> calls (snd (snd run)) = calls w @ [c1, c2, Execute sql, c4])"
  unfolding run_def merge_run Let_def c1_def c2_def c4_def loc_def
  by simp

theorem failure_propagates_witness:
  \<open>execute (conn_failing 0) (calls world0) ''TRUNCATE TABLE S_TMP.T'' = Some (External ''ExaQueryError'')
   \<and> fst (merge_tmp_into_target_tbl (conn_failing 0) frame0 ''ID'' ''S'' ''T'' None None world0)
       = Raises (External ''ExaQueryError'')
   \<and> calls (snd (snd (merge_tmp_into_target_tbl (conn_failing 0) frame0 ''ID'' ''S'' ''T'' None None world0)))
       = [Execute ''TRUNCATE TABLE S_TMP.T'']
   \<and> fst (merge_tmp_into_target_tbl (conn_failing 1) frame0 ''ID'' ''S'' ''T'' None None world0)
       = Raises (External ''ExaQueryError'')
   \<and> calls (snd (snd (merge_tmp_into_target_tbl (conn_failing 1) frame0 ''ID'' ''S'' ''T'' None None world0)))
       = [Execute ''TRUNCATE TABLE S_TMP.T'', Import_from_pandas frame0 ''S_TMP'' ''T'']
   \<and> fst (merge_tmp_into_target_tbl (conn_failing 2) frame0 ''ID'' ''S'' ''T'' None None world0)
       = Raises (External ''ExaQueryError'')
   \<and> length (calls (snd (snd (merge_tmp_into_target_tbl (conn_failing 2) frame0 ''ID'' ''S'' ''T'' None None world0))))
       = 3
   \<and> fst (merge_tmp_into_target_tbl (conn_failing 3) frame0 ''ID'' ''S'' ''T'' None None world0)
       = Raises (External ''ExaQueryError'')
   \<and> length (calls (snd (snd (merge_tmp_into_target_tbl (conn_failing 3) frame0 ''ID'' ''S'' ''T'' None None world0))))
       = 4\<close>
  using
    failure_propagates [where conn = "conn_failing 0" and w = world0 and dataframe = frame0
      and pk_columns = "''ID''" and exasol_schema = "''S''" and exasol_table = "''T''"
      and temp_schema = None and temp_tbl = None and e = "External ''ExaQueryError''"]
    failure_propagates [where conn = "conn_failing 1" and w = world0 and dataframe = frame0
      and pk_columns = "''ID''" and exasol_schema = "''S''" and exasol_table = "''T''"
      and temp_schema = None and temp_tbl = None and e = "External ''ExaQueryError''"]
    failure_propagates [where conn = "conn_failing 2" and w = world0 and dataframe = frame0
      and pk_columns = "''ID''" and exasol_schema = "''S''" and exasol_table = "''T''"
      and temp_schema = None and temp_tbl = None and e = "External ''ExaQueryError''", unfolded frame0_statement]
    failure_propagates [where conn = "conn_failing 3" and w = world0 and dataframe = frame0
      and pk_columns = "''ID''" and exasol_schema = "''S''" and exasol_table = "''T''"
      and temp_schema = None and temp_tbl = None and e = "External ''ExaQueryError''", unfolded frame0_statement]
  by (simp add: conn_failing_def world0_def staging_location_def)

text \<open>
  C8. Both functions use the staging location of the specification: the schema is the
  override when there is one and the target schema followed by \<open>_TMP\<close> otherwise, the
  table is the override when there is one and the target table otherwise, each
  independently of the other. \<open>merge_tmp_into_target_tbl\<close> truncates that table and
  loads the dataframe into it; whatever statement it executes as its third call begins
  with \<open>MERGE INTO\<close> the target \<open>USING\<close> that table (and for names without braces it
  does execute one, once the truncate and the bulk load have returned).
  \<open>print_merge_query\<close> selects from that table, and it prints nothing or one text, which
  begins in the same way.
\<close>

theorem staging_defaults:
  fixes conn :: "'v connection" and dataframe :: "'v dataframe"
    and pk_columns exasol_schema exasol_table :: string and temp_schema temp_tbl :: "string option"
    and w w' :: "'v world"
  defines "loc \<equiv> staging_location exasol_schema exasol_table temp_schema temp_tbl"
  defines "mrun \<equiv> merge_tmp_into_target_tbl conn dataframe pk_columns exasol_schema exasol_table
                     temp_schema temp_tbl w"
  defines "prun \<equiv> print_merge_query conn pk_columns exasol_schema exasol_table temp_schema temp_tbl w'"
  defines "using_head \<equiv> ''MERGE INTO '' @ exasol_schema @ ''.'' @ exasol_table @ '' target_tbl USING '' @
                          fst loc @ ''.'' @ snd loc @ '' tmp ''"
  shows "loc = (case temp_schema of None \<Rightarrow> exasol_schema @ ''_TMP'' | Some s \<Rightarrow> s,
                case temp_tbl of None \<Rightarrow> exasol_table | Some t \<Rightarrow> t)
       \<and> staging_location exasol_schema exasol_table None None = (exasol_schema @ ''_TMP'', exasol_table)
       \<and> staging_location exasol_schema exasol_table (Some s) None = (s, exasol_table)
       \<and> staging_location exasol_schema exasol_table None (Some t) = (exasol_schema @ ''_TMP'', t)
       \<and> staging_location exasol_schema exasol_table (Some s) (Some t) = (s, t)
       \<and> take 1 (drop (length (calls w)) (calls (snd (snd mrun))))
           = [Execute (''TRUNCATE TABLE '' @ fst loc @ ''.'' @ snd loc)]
       \<and> (execute conn (calls w) (''TRUNCATE TABLE '' @ fst loc @ ''.'' @ snd loc) = None \<longrightarrow>
            take 1 (drop (length (calls w) + 1) (calls (snd (snd mrun))))
            = [Import_from_pandas dataframe (fst loc) (snd loc)])
       \<and> (drop (length (calls w) + 2) (calls (snd (snd mrun))) = Execute sql # rest \<longrightarrow>
            take (length using_head) sql = using_head)
       \<and> (execute conn (calls w) (''TRUNCATE TABLE '' @ fst loc @ ''.'' @ snd loc) = None
          \<and> import_from_pandas conn (calls w @ [Execute (''TRUNCATE TABLE '' @ fst loc @ ''.'' @ snd loc)])
               dataframe loc = None
          \<and> brace_free pk_columns \<and> list_all brace_free (columns dataframe) \<longrightarrow>
            (\<exists>body. take 1 (drop (length (calls w) + 2) (calls (snd (snd mrun))))
                    = [Execute (using_head @ body)]))
       \<and> calls (snd prun)
           = calls w' @ [Load_dotenv ''.env'', Connect ''DWHEXA_USER'' ''DWHEXA_PASSWORD'' ''DWHEXA_HOST''] @
             (if connect conn (calls w' @ [Load_dotenv ''.env'']) ''DWHEXA_USER'' ''DWHEXA_PASSWORD'' ''DWHEXA_HOST'' = None
              then [Export_to_pandas (''SELECT * FROM '' @ fst loc @ ''.'' @ snd loc)] else [])
       \<and> (printed (snd prun) = printed w' \<or>
            (\<exists>body. printed (snd prun) = printed w' @ [using_head @ body]))"
proof -
  have hd: "using_head = merge_head exasol_schema exasol_table loc"
    by (simp add: using_head_def merge_head_def)
  have m: "take 1 (drop (length (calls w)) (calls (snd (snd mrun))))
           = [Execute (''TRUNCATE TABLE '' @ fst loc @ ''.'' @ snd loc)]"
    unfolding mrun_def merge_run Let_def loc_def
    by (simp split: option.split sum.split result.split)
  have i: "take 1 (drop (length (calls w) + 1) (calls (snd (snd mrun))))
            = [Import_from_pandas dataframe (fst loc) (snd loc)]"
    if "execute conn (calls w) (''TRUNCATE TABLE '' @ fst loc @ ''.'' @ snd loc) = None"
    using that unfolding mrun_def merge_run Let_def loc_def
    by (simp split: option.split sum.split result.split)
  have x: "take (length using_head) sql = using_head"
    if d: "drop (length (calls w) + 2) (calls (snd (snd mrun))) = Execute sql # rest"
  proof (cases "mtt_statement dataframe pk_columns exasol_schema exasol_table temp_schema temp_tbl")
    case (Returns sql')
    have "sql = sql'"
      using d unfolding mrun_def merge_run Let_def Returns
      by (simp split: option.split_asm sum.split_asm)
    with mtt_statement_head [OF Returns] show ?thesis
      unfolding hd loc_def by simp
  next
    case (Raises e)
    show ?thesis
      using d unfolding mrun_def merge_run Let_def Raises
      by (simp split: option.split_asm)
  next
    case Unmodelled
    show ?thesis
      using d unfolding mrun_def merge_run Let_def Unmodelled
      by (simp split: option.split_asm)
  qed
  have y: "\<exists>body. take 1 (drop (length (calls w) + 2) (calls (snd (snd mrun))))
                    = [Execute (using_head @ body)]"
    if "execute conn (calls w) (''TRUNCATE TABLE '' @ fst loc @ ''.'' @ snd loc) = None"
      and "import_from_pandas conn (calls w @ [Execute (''TRUNCATE TABLE '' @ fst loc @ ''.'' @ snd loc)])
               dataframe loc = None"
      and "brace_free pk_columns" and "list_all brace_free (columns dataframe)"
    using that(1,2) unfolding mrun_def merge_run Let_def mtt_statement_text [OF that(3,4)] hd loc_def
    by (simp split: option.split sum.split)
  have p: "calls (snd prun)
           = calls w' @ [Load_dotenv ''.env'', Connect ''DWHEXA_USER'' ''DWHEXA_PASSWORD'' ''DWHEXA_HOST''] @
             (if connect conn (calls w' @ [Load_dotenv ''.env'']) ''DWHEXA_USER'' ''DWHEXA_PASSWORD'' ''DWHEXA_HOST'' = None
              then [Export_to_pandas (''SELECT * FROM '' @ fst loc @ ''.'' @ snd loc)] else [])"
    unfolding prun_def print_run Let_def loc_def
    by (simp split: option.split sum.split result.split)
  have q: "printed (snd prun) = printed w' \<or>
            (\<exists>body. printed (snd prun) = printed w' @ [using_head @ body])"
  proof (cases "connect conn (calls w' @ [Load_dotenv ''.env'']) ''DWHEXA_USER'' ''DWHEXA_PASSWORD'' ''DWHEXA_HOST''")
    case (Some e)
    then show ?thesis unfolding prun_def print_run Let_def by simp
  next
    case None
    note a = this
    show ?thesis
    proof (cases "export_to_pandas conn
        (calls w' @ [Load_dotenv ''.env'', Connect ''DWHEXA_USER'' ''DWHEXA_PASSWORD'' ''DWHEXA_HOST''])
        (''SELECT * FROM '' @ fst (staging_location exasol_schema exasol_table temp_schema temp_tbl) @ ''.'' @
         snd (staging_location exasol_schema exasol_table temp_schema temp_tbl))")
      case (Inl e)
      with a show ?thesis unfolding prun_def print_run Let_def by simp
    next
      case (Inr fetched)
      note b = this
      show ?thesis
      proof (cases "pmq_statement fetched pk_columns exasol_schema exasol_table temp_schema temp_tbl")
        case (Returns sql')
        from pmq_statement_head [OF Returns]
        have "sql' = using_head @ drop (length using_head) sql'"
          unfolding hd loc_def by (metis append_take_drop_id)
        then have "\<exists>body. sql' = using_head @ body" ..
        with a b Returns show ?thesis unfolding prun_def print_run Let_def by simp
      next
        case (Raises e)
        with a b show ?thesis unfolding prun_def print_run Let_def by simp
      next
        case Unmodelled
        with a b show ?thesis unfolding prun_def print_run Let_def by simp
      qed
    qed
  qed
  have l: "loc = (case temp_schema of None \<Rightarrow> exasol_schema @ ''_TMP'' | Some s \<Rightarrow> s,
                case temp_tbl of None \<Rightarrow> exasol_table | Some t \<Rightarrow> t)"
    by (simp add: loc_def staging_location_def)
  have s: "staging_location exasol_schema exasol_table None None = (exasol_schema @ ''_TMP'', exasol_table)
       \<and> staging_location exasol_schema exasol_table (Some s) None = (s, exasol_table)
       \<and> staging_location exasol_schema exasol_table None (Some t) = (exasol_schema @ ''_TMP'', t)
       \<and> staging_location exasol_schema exasol_table (Some s) (Some t) = (s, t)"
    by (simp add: staging_location_def)
  from l s m i x y p q show ?thesis by blast
qed

theorem staging_defaults_witness:
  \<open>staging_location ''S'' ''T'' None None = (''S_TMP'', ''T'')
   \<and> staging_location ''S'' ''T'' (Some ''STG'') None = (''STG'', ''T'')
   \<and> staging_location ''S'' ''T'' None (Some ''STG_T'') = (''S_TMP'', ''STG_T'')
   \<and> staging_location ''S'' ''T'' (Some ''STG'') (Some ''STG_T'') = (''STG'', ''STG_T'')
   \<and> execute conn_ok (calls world0) ''TRUNCATE TABLE STG.STG_T'' = None
   \<and> import_from_pandas conn_ok (calls world0 @ [Execute ''TRUNCATE TABLE STG.STG_T''])
        frame0 (''STG'', ''STG_T'') = None
   \<and> brace_free ''ID'' \<and> list_all brace_free (columns frame0)
   \<and> drop (length (calls world0) + 2)
        (calls (snd (snd (merge_tmp_into_target_tbl conn_ok frame0 ''ID'' ''S'' ''T'' (Some ''STG'') (Some ''STG_T'') world0))))
      = Execute (''MERGE INTO S.T target_tbl USING STG.STG_T tmp '' @
           ''ON (target_tbl."ID" = tmp."ID") '' @
           ''WHEN MATCHED THEN UPDATE SET target_tbl."UPDATE_TIMESTAMP" = tmp."UPDATE_TIMESTAMP", target_tbl."V" = tmp."V"'' @
           '' WHEN NOT MATCHED THEN INSERT ("INSERT_TIMESTAMP", "UPDATE_TIMESTAMP", "ID", "V")'' @
           '' VALUES (tmp."INSERT_TIMESTAMP", tmp."UPDATE_TIMESTAMP", tmp."ID", tmp."V");'')
        # [Export_to_pandas (''SELECT COUNT(*) AS COUNT_ROWS FROM S.T '' @
           ''\<newline>                                    WHERE TO_DATE(UPDATE_TIMESTAMP) = CURRENT_DATE;'')]
   \<and> take 2 (calls (snd (snd (merge_tmp_into_target_tbl conn_ok frame0 ''ID'' ''S'' ''T'' (Some ''STG'') (Some ''STG_T'') world0))))
      = [Execute ''TRUNCATE TABLE STG.STG_T'', Import_from_pandas frame0 ''STG'' ''STG_T'']
   \<and> take (length ''MERGE INTO S.T target_tbl USING STG.STG_T tmp '')
        (''MERGE INTO S.T target_tbl USING STG.STG_T tmp '' @
           ''ON (target_tbl."ID" = tmp."ID") '' @
           ''WHEN MATCHED THEN UPDATE SET target_tbl."UPDATE_TIMESTAMP" = tmp."UPDATE_TIMESTAMP", target_tbl."V" = tmp."V"'' @
           '' WHEN NOT MATCHED THEN INSERT ("INSERT_TIMESTAMP", "UPDATE_TIMESTAMP", "ID", "V")'' @
           '' VALUES (tmp."INSERT_TIMESTAMP", tmp."UPDATE_TIMESTAMP", tmp."ID", tmp."V");'')
      = ''MERGE INTO S.T target_tbl USING STG.STG_T tmp ''
   \<and> connect conn_staging (calls world0 @ [Load_dotenv ''.env'']) ''DWHEXA_USER'' ''DWHEXA_PASSWORD'' ''DWHEXA_HOST'' = None
   \<and> calls (snd (print_merge_query conn_staging ''ID'' ''S'' ''T'' (Some ''STG'') (Some ''STG_T'') world0))
       = [Load_dotenv ''.env'', Connect ''DWHEXA_USER'' ''DWHEXA_PASSWORD'' ''DWHEXA_HOST'',
          Export_to_pandas ''SELECT * FROM STG.STG_T'']
   \<and> printed (snd (print_merge_query conn_staging ''ID'' ''S'' ''T'' (Some ''STG'') (Some ''STG_T'') world0))
       = [''MERGE INTO S.T target_tbl USING STG.STG_T tmp '' @
           ''ON (target_tbl."ID" = tmp."ID") '' @
           ''WHEN MATCHED THEN UPDATE SET target_tbl."UPDATE_TIMESTAMP" = tmp."UPDATE_TIMESTAMP", target_tbl."A" = tmp."A", target_tbl."B" = tmp."B"'' @
           '' WHEN NOT MATCHED THEN INSERT ("INSERT_TIMESTAMP", "UPDATE_TIMESTAMP", "ID", "A", "B")'' @
           '' VALUES (tmp."INSERT_TIMESTAMP", tmp."UPDATE_TIMESTAMP", tmp."ID", tmp."A", tmp."B");'']
   \<and> (\<exists>body. printed (snd (print_merge_query conn_staging ''ID'' ''S'' ''T'' (Some ''STG'') (Some ''STG_T'') world0))
              = [''MERGE INTO S.T target_tbl USING STG.STG_T tmp '' @ body])\<close>
proof -
  have b: \<open>brace_free ''ID'' \<and> list_all brace_free (columns frame0)\<close>
    by (simp add: brace_free_def frame0_def)
  note m = staging_defaults [where conn = conn_ok and w = world0 and w' = world0 and dataframe = frame0
      and pk_columns = "''ID''" and exasol_schema = "''S''" and exasol_table = "''T''"
      and temp_schema = "Some ''STG''" and temp_tbl = "Some ''STG_T''"
      and s = "''STG''" and t = "''STG_T''", unfolded frame0_run_override]
  note p = staging_defaults [where conn = conn_staging and w = world0 and w' = world0 and dataframe = frame0
      and pk_columns = "''ID''" and exasol_schema = "''S''" and exasol_table = "''T''"
      and temp_schema = "Some ''STG''" and temp_tbl = "Some ''STG_T''", unfolded staged1_print_override]
  show ?thesis
    using b m p frame0_run_override staged1_print_override
    by (simp add: conn_ok_def conn_staging_def world0_def staging_location_def)
qed

text \<open>
  C9. After a call of \<open>merge_tmp_into_target_tbl\<close> that returns, the caller's dataframe
  is the dataframe it passed with every column label stripped, and nothing else changed:
  same rows, same number and order of columns. The labels are stripped at line 185, that
  is exactly when the truncate and the bulk load have returned (whatever a later step
  does); when one of these two raises, the dataframe is left as it was.
\<close>

theorem dataframe_labels_stripped:
  fixes conn :: "'v connection" and dataframe :: "'v dataframe"
    and pk_columns exasol_schema exasol_table :: string and temp_schema temp_tbl :: "string option"
    and w :: "'v world"
  defines "loc \<equiv> staging_location exasol_schema exasol_table temp_schema temp_tbl"
  defines "run \<equiv> merge_tmp_into_target_tbl conn dataframe pk_columns exasol_schema exasol_table
                    temp_schema temp_tbl w"
  shows "(fst run = Returns () \<longrightarrow>
            fst (snd run) = dataframe\<lparr>columns := map str_strip (columns dataframe)\<rparr>)
       \<and> fst (snd run) =
           (if execute conn (calls w) (''TRUNCATE TABLE '' @ fst loc @ ''.'' @ snd loc) = None
               \<and> import_from_pandas conn
                     (calls w @ [Execute (''TRUNCATE TABLE '' @ fst loc @ ''.'' @ snd loc)]) dataframe loc = None
            then dataframe\<lparr>columns := map str_strip (columns dataframe)\<rparr>
            else dataframe)
       \<and> rows (fst (snd run)) = rows dataframe
       \<and> length (columns (fst (snd run))) = length (columns dataframe)"
  unfolding run_def merge_run Let_def loc_def
  by (simp split: option.splits sum.splits result.splits)

theorem dataframe_labels_stripped_witness:
  "fst (merge_tmp_into_target_tbl conn_ok frame0 ''ID'' ''S'' ''T'' None None world0) = Returns ()
   \<and> fst (snd (merge_tmp_into_target_tbl conn_ok frame0 ''ID'' ''S'' ''T'' None None world0))
       = \<lparr>columns = [''ID'', ''V''], rows = [[1, 2]]\<rparr>
   \<and> fst (snd (merge_tmp_into_target_tbl (conn_failing 0) frame0 ''ID'' ''S'' ''T'' None None world0))
       = \<lparr>columns = [''ID'', '' V ''], rows = [[1, 2]]\<rparr>"
proof -
  have ok: "fst (merge_tmp_into_target_tbl conn_ok frame0 ''ID'' ''S'' ''T'' None None world0) = Returns ()"
    unfolding merge_run Let_def frame0_statement
    by (simp add: conn_ok_def count_rows_0_def)
  show ?thesis
    using ok
      dataframe_labels_stripped [where conn = conn_ok and w = world0 and dataframe = frame0
        and pk_columns = "''ID''" and exasol_schema = "''S''" and exasol_table = "''T''"
        and temp_schema = None and temp_tbl = None]
      dataframe_labels_stripped [where conn = "conn_failing 0" and w = world0 and dataframe = frame0
        and pk_columns = "''ID''" and exasol_schema = "''S''" and exasol_table = "''T''"
        and temp_schema = None and temp_tbl = None]
    by (simp add: frame0_def conn_failing_def world0_def staging_location_def str_strip_def isspace_def)
qed

text \<open>
  C10. For an \<open>env\<close> that is a string other than \<open>prod\<close> and \<open>dev\<close>, \<open>deployment\<close> returns
  without exiting (and logs nothing), whatever the two flags are; for \<open>env = None\<close> it
  exits exactly when both flags are false.
\<close>

theorem deployment_exit_gate:
  "(env \<noteq> None \<and> env \<noteq> Some ''prod'' \<and> env \<noteq> Some ''dev''
      \<longrightarrow> deployment env prod_flag dev w = (Inr (), w))
   \<and> (fst (deployment None prod_flag dev w) = Inl SystemExit \<longleftrightarrow> \<not> prod_flag \<and> \<not> dev)
   \<and> (fst (deployment None prod_flag dev w) = Inr () \<longleftrightarrow> prod_flag \<or> dev)"
  by (auto simp: deployment_def)

theorem deployment_exit_gate_witness:
  "Some ''staging'' \<noteq> None \<and> Some ''staging'' \<noteq> Some ''prod'' \<and> Some ''staging'' \<noteq> Some ''dev''
   \<and> deployment (Some ''staging'') False False world0 = (Inr (), world0)
   \<and> fst (deployment None False False world0) = Inl SystemExit
   \<and> fst (deployment None True False world0) = Inr ()"
  using deployment_exit_gate [of "Some ''staging''" False False world0]
        deployment_exit_gate [of None True False world0]
  by simp

end
